theory Spec2Isabelle
  imports Main "HOL-Library.Sublist"
begin

section \<open>Go values: errors, nil pointers, panics\<close>

text \<open>
  A Go \<open>error\<close> value that is not nil. The constructors are the dynamic types the two
  packages under study distinguish: an AWS SDK error (\<open>awserr.Error\<close>, with its code and
  message), the plugin SDK's \<open>*resource.NotFoundError\<close> and \<open>*resource.TimeoutError\<close>
  (with their message text), a plain \<open>fmt.Errorf\<close>/\<open>errors.New\<close> error, and an error
  wrapped by \<open>fmt.Errorf("prefix%w", err)\<close>. A nil error is \<open>None :: error option\<close>.
\<close>

datatype error =
    AWSError string string
  | NotFoundError string
  | TimeoutError string
  | Errorf string
  | Wrapf string error

text \<open>The method \<open>err.Error()\<close>: the text of the error.\<close>

fun Error :: "error \<Rightarrow> string" where
  "Error (AWSError code message) = code @ '': '' @ message"
| "Error (NotFoundError message) = message"
| "Error (TimeoutError message) = message"
| "Error (Errorf message) = message"
| "Error (Wrapf pre err) = pre @ Error err"

text \<open>
  \<open>errors.As(err, &awsErr)\<close> for \<open>awserr.Error\<close>: the first AWS error of the wrapping
  chain, as (code, message).
\<close>

fun AsAWSError :: "error \<Rightarrow> (string \<times> string) option" where
  "AsAWSError (AWSError code message) = Some (code, message)"
| "AsAWSError (Wrapf pre err) = AsAWSError err"
| "AsAWSError _ = None"

text \<open>\<open>strings.Contains(s, substr)\<close>: \<open>substr\<close> occurs in \<open>s\<close> as a contiguous run.\<close>

definition Contains :: "string \<Rightarrow> string \<Rightarrow> bool" where
  "Contains s substr = sublist substr s"

text \<open>\<open>tfawserr.ErrCodeEquals(err, code)\<close>; false on a nil error.\<close>

definition ErrCodeEquals :: "error option \<Rightarrow> string \<Rightarrow> bool" where
  "ErrCodeEquals err code =
     (case err of
        None \<Rightarrow> False
      | Some e \<Rightarrow> (case AsAWSError e of None \<Rightarrow> False | Some (c, m) \<Rightarrow> c = code))"

text \<open>\<open>tfawserr.ErrMessageContains(err, code, message)\<close>; false on a nil error.\<close>

definition ErrMessageContains :: "error option \<Rightarrow> string \<Rightarrow> string \<Rightarrow> bool" where
  "ErrMessageContains err code message =
     (case err of
        None \<Rightarrow> False
      | Some e \<Rightarrow>
          (case AsAWSError e of
             None \<Rightarrow> False
           | Some (c, m) \<Rightarrow> c = code \<and> Contains m message))"

text \<open>
  Modelled from the spec: \<open>tfresource.NotFound\<close> (package \<open>internal/tfresource\<close>, not among
  the sources) recognises the \<open>NotFoundError\<close> class, "resource absent", anywhere in the
  wrapping chain of the error; false on a nil error.
\<close>

fun IsNotFoundError :: "error \<Rightarrow> bool" where
  "IsNotFoundError (NotFoundError message) = True"
| "IsNotFoundError (Wrapf pre err) = IsNotFoundError err"
| "IsNotFoundError _ = False"

definition NotFound :: "error option \<Rightarrow> bool" where
  "NotFound err = (case err of None \<Rightarrow> False | Some e \<Rightarrow> IsNotFoundError e)"

text \<open>
  A call either returns or panics (here: on a nil pointer dereference).
\<close>

datatype 'a exec = Panic | Return 'a

text \<open>
  The result of a \<open>resource.StateRefreshFunc\<close>: \<open>(interface{}, string, error)\<close>. A pointer
  is an \<open>option\<close> (\<open>None\<close> is nil). The payload is an interface value: \<open>None\<close> is the nil
  interface, \<open>Some p\<close> an interface holding the value \<open>p\<close>, which for a pointer may itself
  be nil.
\<close>

type_synonym 'a refresh = "('a option \<times> string \<times> error option) exec"

text \<open>\<open>aws.StringValue\<close>, \<open>aws.BoolValue\<close>, \<open>strconv.FormatBool\<close>.\<close>

definition StringValue :: "string option \<Rightarrow> string" where
  "StringValue p = (case p of None \<Rightarrow> [] | Some s \<Rightarrow> s)"

definition BoolValue :: "bool option \<Rightarrow> bool" where
  "BoolValue p = (case p of None \<Rightarrow> False | Some b \<Rightarrow> b)"

definition FormatBool :: "bool \<Rightarrow> string" where
  "FormatBool b = (if b then ''true'' else ''false'')"

text \<open>\<open>%d\<close> of a length: the decimal digits of a natural number.\<close>

fun Itoa_fuel :: "nat \<Rightarrow> nat \<Rightarrow> string" where
  "Itoa_fuel 0 n = []"
| "Itoa_fuel (Suc k) n =
     (if n < 10 then [char_of (48 + n)]
      else Itoa_fuel k (n div 10) @ [char_of (48 + n mod 10)])"

definition Itoa :: "nat \<Rightarrow> string" where
  "Itoa n = Itoa_fuel (Suc n) n"

section \<open>The status reducers of \<open>internal/service/ec2/status.go\<close>\<close>

text \<open>
  Each reducer is a closure over a connection and the resource's identifiers; calling it
  issues one describe call and maps what comes back. The describe call (a finder of
  package \<open>tfec2\<close> or a method of the SDK client) is the reducer's parameter, named as in
  the source; it returns the pair (response, error) of the Go call. The error codes
  \<open>tfec2.ErrCode...\<close> are constants of a file that is not among the sources and are
  parameters as well. The constants \<open>ec2....\<close> are the AWS SDK's.
\<close>

definition carrierGatewayStateNotFound :: string where
  "carrierGatewayStateNotFound = ''NotFound''"

definition carrierGatewayStateUnknown :: string where
  "carrierGatewayStateUnknown = ''Unknown''"

definition CarrierGatewayStateDeleted :: string where
  "CarrierGatewayStateDeleted = ''deleted''"

datatype CarrierGateway = CarrierGateway (cg_State: "string option")

definition StatusCarrierGatewayState ::
  "string \<Rightarrow> (string \<Rightarrow> CarrierGateway option \<times> error option) \<Rightarrow> string
     \<Rightarrow> CarrierGateway option refresh" where
  "StatusCarrierGatewayState ErrCodeInvalidCarrierGatewayIDNotFound FindCarrierGatewayByID
       carrierGatewayID =
     (case FindCarrierGatewayByID carrierGatewayID of (carrierGateway, err) \<Rightarrow>
        if ErrCodeEquals err ErrCodeInvalidCarrierGatewayIDNotFound
        then Return (None, carrierGatewayStateNotFound, None)
        else if err \<noteq> None then Return (None, carrierGatewayStateUnknown, err)
        else (case carrierGateway of
                None \<Rightarrow> Return (None, carrierGatewayStateNotFound, None)
              | Some cg \<Rightarrow>
                  (let state = StringValue (cg_State cg) in
                   if state = CarrierGatewayStateDeleted
                   then Return (None, carrierGatewayStateNotFound, None)
                   else Return (Some carrierGateway, state, None))))"

subsection \<open>Local gateway route table VPC association\<close>

definition RouteTableAssociationStateCodeDisassociated :: string where
  "RouteTableAssociationStateCodeDisassociated = ''disassociated''"

datatype LocalGatewayRouteTableVpcAssociation =
  LocalGatewayRouteTableVpcAssociation
    (LocalGatewayRouteTableVpcAssociationId: "string option") (lgva_State: "string option")

text \<open>
  The loop over \<open>output.LocalGatewayRouteTableVpcAssociations\<close>: nil elements are skipped,
  the first element with the wanted id is kept.
\<close>

fun findLocalGatewayAssociation ::
  "LocalGatewayRouteTableVpcAssociation option list \<Rightarrow> string
     \<Rightarrow> LocalGatewayRouteTableVpcAssociation option" where
  "findLocalGatewayAssociation [] wanted = None"
| "findLocalGatewayAssociation (None # rest) wanted = findLocalGatewayAssociation rest wanted"
| "findLocalGatewayAssociation (Some a # rest) wanted =
     (if StringValue (LocalGatewayRouteTableVpcAssociationId a) = wanted then Some a
      else findLocalGatewayAssociation rest wanted)"

text \<open>
  The output struct of a describe call of the SDK client is modelled by the one field the
  reducer reads, the slice of element pointers; the pointer to the struct may be nil. Here
  the slice is read without a nil check on the output.
\<close>

definition StatusLocalGatewayRouteTableVPCAssociationState ::
  "(string list \<Rightarrow> LocalGatewayRouteTableVpcAssociation option list option \<times> error option)
     \<Rightarrow> string \<Rightarrow> LocalGatewayRouteTableVpcAssociation option refresh" where
  "StatusLocalGatewayRouteTableVPCAssociationState DescribeLocalGatewayRouteTableVpcAssociations
       localGatewayRouteTableVpcAssociationID =
     (case DescribeLocalGatewayRouteTableVpcAssociations [localGatewayRouteTableVpcAssociationID] of
        (output, err) \<Rightarrow>
        if err \<noteq> None then Return (None, [], err)
        else (case output of
                None \<Rightarrow> Panic
              | Some associations \<Rightarrow>
                  (case findLocalGatewayAssociation associations
                          localGatewayRouteTableVpcAssociationID of
                     None \<Rightarrow> Return (Some None, RouteTableAssociationStateCodeDisassociated, None)
                   | Some association \<Rightarrow>
                       Return (Some (Some association), StringValue (lgva_State association), None))))"

subsection \<open>Client VPN\<close>

definition ClientVPNEndpointStatusNotFound :: string where
  "ClientVPNEndpointStatusNotFound = ''NotFound''"

definition ClientVPNEndpointStatusUnknown :: string where
  "ClientVPNEndpointStatusUnknown = ''Unknown''"

datatype ClientVpnEndpointStatus = ClientVpnEndpointStatus (cves_Code: "string option")

datatype ClientVpnEndpoint = ClientVpnEndpoint (cve_Status: "ClientVpnEndpointStatus option")

definition StatusClientVPNEndpoint ::
  "string \<Rightarrow> (string list \<Rightarrow> ClientVpnEndpoint option list option \<times> error option) \<Rightarrow> string
     \<Rightarrow> ClientVpnEndpoint option refresh" where
  "StatusClientVPNEndpoint ErrCodeClientVPNEndpointIdNotFound DescribeClientVpnEndpoints endpointID =
     (case DescribeClientVpnEndpoints [endpointID] of (result, err) \<Rightarrow>
        if ErrCodeEquals err ErrCodeClientVPNEndpointIdNotFound
        then Return (None, ClientVPNEndpointStatusNotFound, None)
        else if err \<noteq> None then Return (None, ClientVPNEndpointStatusUnknown, err)
        else (case result of
                None \<Rightarrow> Return (None, ClientVPNEndpointStatusNotFound, None)
              | Some [] \<Rightarrow> Return (None, ClientVPNEndpointStatusNotFound, None)
              | Some (None # rest) \<Rightarrow> Return (None, ClientVPNEndpointStatusNotFound, None)
              | Some (Some endpoint # rest) \<Rightarrow>
                  (case cve_Status endpoint of
                     None \<Rightarrow> Return (Some (Some endpoint), ClientVPNEndpointStatusUnknown, None)
                   | Some status \<Rightarrow>
                       (case cves_Code status of
                          None \<Rightarrow> Return (Some (Some endpoint), ClientVPNEndpointStatusUnknown, None)
                        | Some code \<Rightarrow> Return (Some (Some endpoint), StringValue (Some code), None)))))"

definition ClientVPNAuthorizationRuleStatusNotFound :: string where
  "ClientVPNAuthorizationRuleStatusNotFound = ''NotFound''"

definition ClientVPNAuthorizationRuleStatusUnknown :: string where
  "ClientVPNAuthorizationRuleStatusUnknown = ''Unknown''"

datatype ClientVpnAuthorizationRuleStatus = ClientVpnAuthorizationRuleStatus (cvars_Code: "string option")

datatype AuthorizationRule = AuthorizationRule (ar_Status: "ClientVpnAuthorizationRuleStatus option")

definition StatusClientVPNAuthorizationRule ::
  "string \<Rightarrow> (string \<Rightarrow> AuthorizationRule option list option \<times> error option) \<Rightarrow> string
     \<Rightarrow> AuthorizationRule option refresh" where
  "StatusClientVPNAuthorizationRule ErrCodeClientVPNAuthorizationRuleNotFound
       FindClientVPNAuthorizationRuleByID authorizationRuleID =
     (case FindClientVPNAuthorizationRuleByID authorizationRuleID of (result, err) \<Rightarrow>
        if ErrCodeEquals err ErrCodeClientVPNAuthorizationRuleNotFound
        then Return (None, ClientVPNAuthorizationRuleStatusNotFound, None)
        else if err \<noteq> None then Return (None, ClientVPNAuthorizationRuleStatusUnknown, err)
        else (case result of
                None \<Rightarrow> Return (None, ClientVPNAuthorizationRuleStatusNotFound, None)
              | Some [] \<Rightarrow> Return (None, ClientVPNAuthorizationRuleStatusNotFound, None)
              | Some (None # rest) \<Rightarrow> Return (None, ClientVPNAuthorizationRuleStatusNotFound, None)
              | Some (Some rule # rest) \<Rightarrow>
                  if length (Some rule # rest) > 1
                  then Return (None, ClientVPNAuthorizationRuleStatusUnknown,
                         Some (Errorf (''internal error: found '' @ Itoa (length (Some rule # rest))
                           @ '' results for Client VPN authorization rule ('' @ authorizationRuleID
                           @ '') status, need 1'')))
                  else (case ar_Status rule of
                          None \<Rightarrow> Return (Some (Some rule), ClientVPNAuthorizationRuleStatusUnknown, None)
                        | Some status \<Rightarrow>
                            (case cvars_Code status of
                               None \<Rightarrow>
                                 Return (Some (Some rule), ClientVPNAuthorizationRuleStatusUnknown, None)
                             | Some code \<Rightarrow> Return (Some (Some rule), StringValue (Some code), None)))))"

definition ClientVPNNetworkAssociationStatusNotFound :: string where
  "ClientVPNNetworkAssociationStatusNotFound = ''NotFound''"

definition ClientVPNNetworkAssociationStatusUnknown :: string where
  "ClientVPNNetworkAssociationStatusUnknown = ''Unknown''"

datatype AssociationStatus = AssociationStatus (as_Code: "string option")

datatype TargetNetwork = TargetNetwork (tn_Status: "AssociationStatus option")

text \<open>The describe input carries the endpoint id and the list of association ids.\<close>

definition StatusClientVPNNetworkAssociation ::
  "string \<Rightarrow> string
     \<Rightarrow> (string \<Rightarrow> string list \<Rightarrow> TargetNetwork option list option \<times> error option)
     \<Rightarrow> string \<Rightarrow> string \<Rightarrow> TargetNetwork option refresh" where
  "StatusClientVPNNetworkAssociation ErrCodeClientVPNAssociationIdNotFound
       ErrCodeClientVPNEndpointIdNotFound DescribeClientVpnTargetNetworks cvnaID cvepID =
     (case DescribeClientVpnTargetNetworks cvepID [cvnaID] of (result, err) \<Rightarrow>
        if ErrCodeEquals err ErrCodeClientVPNAssociationIdNotFound
           \<or> ErrCodeEquals err ErrCodeClientVPNEndpointIdNotFound
        then Return (None, ClientVPNNetworkAssociationStatusNotFound, None)
        else if err \<noteq> None then Return (None, ClientVPNNetworkAssociationStatusUnknown, err)
        else (case result of
                None \<Rightarrow> Return (None, ClientVPNNetworkAssociationStatusNotFound, None)
              | Some [] \<Rightarrow> Return (None, ClientVPNNetworkAssociationStatusNotFound, None)
              | Some (None # rest) \<Rightarrow> Return (None, ClientVPNNetworkAssociationStatusNotFound, None)
              | Some (Some network # rest) \<Rightarrow>
                  (case tn_Status network of
                     None \<Rightarrow> Return (Some (Some network), ClientVPNNetworkAssociationStatusUnknown, None)
                   | Some status \<Rightarrow>
                       (case as_Code status of
                          None \<Rightarrow>
                            Return (Some (Some network), ClientVPNNetworkAssociationStatusUnknown, None)
                        | Some code \<Rightarrow> Return (Some (Some network), StringValue (Some code), None)))))"

definition ClientVPNRouteStatusNotFound :: string where
  "ClientVPNRouteStatusNotFound = ''NotFound''"

definition ClientVPNRouteStatusUnknown :: string where
  "ClientVPNRouteStatusUnknown = ''Unknown''"

datatype ClientVpnRouteStatus = ClientVpnRouteStatus (cvrs_Code: "string option")

datatype ClientVpnRoute = ClientVpnRoute (cvr_Status: "ClientVpnRouteStatus option")

definition StatusClientVPNRoute ::
  "string \<Rightarrow> (string \<Rightarrow> ClientVpnRoute option list option \<times> error option) \<Rightarrow> string
     \<Rightarrow> ClientVpnRoute option refresh" where
  "StatusClientVPNRoute ErrCodeClientVPNRouteNotFound FindClientVPNRouteByID routeID =
     (case FindClientVPNRouteByID routeID of (result, err) \<Rightarrow>
        if ErrCodeEquals err ErrCodeClientVPNRouteNotFound
        then Return (None, ClientVPNRouteStatusNotFound, None)
        else if err \<noteq> None then Return (None, ClientVPNRouteStatusUnknown, err)
        else (case result of
                None \<Rightarrow> Return (None, ClientVPNRouteStatusNotFound, None)
              | Some [] \<Rightarrow> Return (None, ClientVPNRouteStatusNotFound, None)
              | Some (None # rest) \<Rightarrow> Return (None, ClientVPNRouteStatusNotFound, None)
              | Some (Some rule # rest) \<Rightarrow>
                  if length (Some rule # rest) > 1
                  then Return (None, ClientVPNRouteStatusUnknown,
                         Some (Errorf (''internal error: found '' @ Itoa (length (Some rule # rest))
                           @ '' results for Client VPN route ('' @ routeID @ '') status, need 1'')))
                  else (case cvr_Status rule of
                          None \<Rightarrow> Return (Some (Some rule), ClientVPNRouteStatusUnknown, None)
                        | Some status \<Rightarrow>
                            (case cvrs_Code status of
                               None \<Rightarrow> Return (Some (Some rule), ClientVPNRouteStatusUnknown, None)
                             | Some code \<Rightarrow> Return (Some (Some rule), StringValue (Some code), None)))))"

subsection \<open>Instance profile, routes, route tables, security groups, subnets\<close>

datatype IamInstanceProfile = IamInstanceProfile (Arn: "string option")

datatype Instance = Instance (inst_IamInstanceProfile: "IamInstanceProfile option")

text \<open>
  \<open>tfiam.InstanceProfileARNToName\<close> is a function of a package that is not among the
  sources: a parameter, returning the pair (name, error).
\<close>

definition StatusInstanceIAMInstanceProfile ::
  "string \<Rightarrow> (string \<Rightarrow> string \<times> error option)
     \<Rightarrow> (string \<Rightarrow> Instance option \<times> error option) \<Rightarrow> string \<Rightarrow> Instance option refresh" where
  "StatusInstanceIAMInstanceProfile ErrCodeInvalidInstanceIDNotFound InstanceProfileARNToName
       FindInstanceByID id' =
     (case FindInstanceByID id' of (instance, err) \<Rightarrow>
        if ErrCodeEquals err ErrCodeInvalidInstanceIDNotFound then Return (None, [], None)
        else if err \<noteq> None then Return (None, [], err)
        else (case instance of
                None \<Rightarrow> Return (None, [], None)
              | Some i \<Rightarrow>
                  (case inst_IamInstanceProfile i of
                     None \<Rightarrow> Return (Some instance, [], None)
                   | Some profile \<Rightarrow>
                       (case Arn profile of
                          None \<Rightarrow> Return (Some instance, [], None)
                        | Some arn \<Rightarrow>
                            (case InstanceProfileARNToName (StringValue (Some arn)) of
                               (name, err') \<Rightarrow>
                                 if err' \<noteq> None then Return (Some instance, [], err')
                                 else Return (Some instance, name, None))))))"

definition RouteStatusReady :: string where
  "RouteStatusReady = ''ready''"

text \<open>
  The route finder's output pointer is returned as it is, without a nil check: the payload
  is an interface holding that pointer.
\<close>

definition StatusRoute ::
  "(string \<Rightarrow> string \<Rightarrow> 'route option \<times> error option) \<Rightarrow> string \<Rightarrow> string
     \<Rightarrow> 'route option refresh" where
  "StatusRoute routeFinder routeTableID destination =
     (case routeFinder routeTableID destination of (output, err) \<Rightarrow>
        if NotFound err then Return (None, [], None)
        else if err \<noteq> None then Return (None, [], err)
        else Return (Some output, RouteStatusReady, None))"

definition RouteTableStatusReady :: string where
  "RouteTableStatusReady = ''ready''"

definition StatusRouteTable ::
  "(string \<Rightarrow> 'routeTable option \<times> error option) \<Rightarrow> string \<Rightarrow> 'routeTable option refresh" where
  "StatusRouteTable FindRouteTableByID id' =
     (case FindRouteTableByID id' of (output, err) \<Rightarrow>
        if NotFound err then Return (None, [], None)
        else if err \<noteq> None then Return (None, [], err)
        else Return (Some output, RouteTableStatusReady, None))"

datatype RouteTableAssociationState = RouteTableAssociationState (rtas_State: "string option")

datatype RouteTableAssociation =
  RouteTableAssociation (AssociationState: "RouteTableAssociationState option")

text \<open>
  \<open>output.AssociationState\<close> and \<open>output.AssociationState.State\<close> are read without nil
  checks.
\<close>

definition StatusRouteTableAssociationState ::
  "(string \<Rightarrow> RouteTableAssociation option \<times> error option) \<Rightarrow> string
     \<Rightarrow> RouteTableAssociationState option refresh" where
  "StatusRouteTableAssociationState FindRouteTableAssociationByID id' =
     (case FindRouteTableAssociationByID id' of (output, err) \<Rightarrow>
        if NotFound err then Return (None, [], None)
        else if err \<noteq> None then Return (None, [], err)
        else (case output of
                None \<Rightarrow> Panic
              | Some association \<Rightarrow>
                  (case AssociationState association of
                     None \<Rightarrow> Panic
                   | Some state \<Rightarrow>
                       Return (Some (AssociationState association),
                               StringValue (rtas_State state), None))))"

definition SecurityGroupStatusCreated :: string where
  "SecurityGroupStatusCreated = ''Created''"

definition SecurityGroupStatusNotFound :: string where
  "SecurityGroupStatusNotFound = ''NotFound''"

definition SecurityGroupStatusUnknown :: string where
  "SecurityGroupStatusUnknown = ''Unknown''"

definition StatusSecurityGroup ::
  "(string \<Rightarrow> 'securityGroup option \<times> error option) \<Rightarrow> string
     \<Rightarrow> 'securityGroup option refresh" where
  "StatusSecurityGroup FindSecurityGroupByID id' =
     (case FindSecurityGroupByID id' of (group', err) \<Rightarrow>
        if NotFound err then Return (None, SecurityGroupStatusNotFound, None)
        else if err \<noteq> None then Return (None, SecurityGroupStatusUnknown, err)
        else Return (Some group', SecurityGroupStatusCreated, None))"

datatype Subnet =
  Subnet (MapCustomerOwnedIpOnLaunch: "bool option") (MapPublicIpOnLaunch: "bool option")

definition StatusSubnetMapCustomerOwnedIPOnLaunch ::
  "string \<Rightarrow> (string \<Rightarrow> Subnet option \<times> error option) \<Rightarrow> string \<Rightarrow> Subnet option refresh" where
  "StatusSubnetMapCustomerOwnedIPOnLaunch ErrCodeInvalidSubnetIDNotFound FindSubnetByID id' =
     (case FindSubnetByID id' of (subnet, err) \<Rightarrow>
        if ErrCodeEquals err ErrCodeInvalidSubnetIDNotFound then Return (None, ''false'', None)
        else if err \<noteq> None then Return (None, ''false'', err)
        else (case subnet of
                None \<Rightarrow> Return (None, ''false'', None)
              | Some sn \<Rightarrow>
                  Return (Some subnet, FormatBool (BoolValue (MapCustomerOwnedIpOnLaunch sn)), None)))"

definition StatusSubnetMapPublicIPOnLaunch ::
  "string \<Rightarrow> (string \<Rightarrow> Subnet option \<times> error option) \<Rightarrow> string \<Rightarrow> Subnet option refresh" where
  "StatusSubnetMapPublicIPOnLaunch ErrCodeInvalidSubnetIDNotFound FindSubnetByID id' =
     (case FindSubnetByID id' of (subnet, err) \<Rightarrow>
        if ErrCodeEquals err ErrCodeInvalidSubnetIDNotFound then Return (None, ''false'', None)
        else if err \<noteq> None then Return (None, ''false'', err)
        else (case subnet of
                None \<Rightarrow> Return (None, ''false'', None)
              | Some sn \<Rightarrow>
                  Return (Some subnet, FormatBool (BoolValue (MapPublicIpOnLaunch sn)), None)))"

subsection \<open>Transit gateways and VPCs\<close>

datatype TransitGatewayPrefixListReference =
  TransitGatewayPrefixListReference (tgplr_State: "string option")

definition StatusTransitGatewayPrefixListReferenceState ::
  "(string \<Rightarrow> string \<Rightarrow> TransitGatewayPrefixListReference option \<times> error option)
     \<Rightarrow> string \<Rightarrow> string \<Rightarrow> TransitGatewayPrefixListReference option refresh" where
  "StatusTransitGatewayPrefixListReferenceState FindTransitGatewayPrefixListReference
       transitGatewayRouteTableID prefixListID =
     (case FindTransitGatewayPrefixListReference transitGatewayRouteTableID prefixListID of
        (transitGatewayPrefixListReference, err) \<Rightarrow>
        if err \<noteq> None then Return (None, [], err)
        else (case transitGatewayPrefixListReference of
                None \<Rightarrow> Return (None, [], None)
              | Some r \<Rightarrow>
                  Return (Some transitGatewayPrefixListReference,
                          StringValue (tgplr_State r), None)))"

datatype TransitGatewayRouteTablePropagation =
  TransitGatewayRouteTablePropagation (tgrtp_State: "string option")

definition StatusTransitGatewayRouteTablePropagationState ::
  "(string \<Rightarrow> string \<Rightarrow> TransitGatewayRouteTablePropagation option \<times> error option)
     \<Rightarrow> string \<Rightarrow> string \<Rightarrow> TransitGatewayRouteTablePropagation option refresh" where
  "StatusTransitGatewayRouteTablePropagationState FindTransitGatewayRouteTablePropagation
       transitGatewayRouteTableID transitGatewayAttachmentID =
     (case FindTransitGatewayRouteTablePropagation transitGatewayRouteTableID
             transitGatewayAttachmentID of
        (transitGatewayRouteTablePropagation, err) \<Rightarrow>
        if err \<noteq> None then Return (None, [], err)
        else (case transitGatewayRouteTablePropagation of
                None \<Rightarrow> Return (None, [], None)
              | Some r \<Rightarrow>
                  Return (Some transitGatewayRouteTablePropagation,
                          StringValue (tgrtp_State r), None)))"

definition StatusVPCAttribute ::
  "string \<Rightarrow> (string \<Rightarrow> string \<Rightarrow> bool option \<times> error option) \<Rightarrow> string \<Rightarrow> string
     \<Rightarrow> bool option refresh" where
  "StatusVPCAttribute ErrCodeInvalidVPCIDNotFound FindVPCAttribute id' attribute =
     (case FindVPCAttribute id' attribute of (attributeValue, err) \<Rightarrow>
        if ErrCodeEquals err ErrCodeInvalidVPCIDNotFound then Return (None, [], None)
        else if err \<noteq> None then Return (None, [], err)
        else (case attributeValue of
                None \<Rightarrow> Return (None, [], None)
              | Some b \<Rightarrow>
                  Return (Some attributeValue, FormatBool (BoolValue attributeValue), None)))"

definition vpcPeeringConnectionStatusNotFound :: string where
  "vpcPeeringConnectionStatusNotFound = ''NotFound''"

definition vpcPeeringConnectionStatusUnknown :: string where
  "vpcPeeringConnectionStatusUnknown = ''Unknown''"

definition VpcPeeringConnectionStateReasonCodeFailed :: string where
  "VpcPeeringConnectionStateReasonCodeFailed = ''failed''"

definition VpcPeeringConnectionStateReasonCodeDeleted :: string where
  "VpcPeeringConnectionStateReasonCodeDeleted = ''deleted''"

definition VpcPeeringConnectionStateReasonCodeExpired :: string where
  "VpcPeeringConnectionStateReasonCodeExpired = ''expired''"

definition VpcPeeringConnectionStateReasonCodeRejected :: string where
  "VpcPeeringConnectionStateReasonCodeRejected = ''rejected''"

datatype VpcPeeringConnectionStateReason =
  VpcPeeringConnectionStateReason (vpcsr_Code: "string option") (vpcsr_Message: "string option")

datatype VpcPeeringConnection =
  VpcPeeringConnection (vpc_Status: "VpcPeeringConnectionStateReason option")

text \<open>
  The \<open>switch\<close> on the status code: the case \<open>failed\<close> logs a warning and falls through to
  the case of \<open>deleted\<close>, \<open>expired\<close> and \<open>rejected\<close>; the log line changes no result.
\<close>

definition StatusVPCPeeringConnection ::
  "string \<Rightarrow> (string \<Rightarrow> VpcPeeringConnection option \<times> error option) \<Rightarrow> string
     \<Rightarrow> VpcPeeringConnection option refresh" where
  "StatusVPCPeeringConnection ErrCodeInvalidVPCPeeringConnectionIDNotFound
       FindVPCPeeringConnectionByID vpcPeeringConnectionID =
     (case FindVPCPeeringConnectionByID vpcPeeringConnectionID of (vpcPeeringConnection, err) \<Rightarrow>
        if ErrCodeEquals err ErrCodeInvalidVPCPeeringConnectionIDNotFound
        then Return (None, vpcPeeringConnectionStatusNotFound, None)
        else if err \<noteq> None then Return (None, vpcPeeringConnectionStatusUnknown, err)
        else (case vpcPeeringConnection of
                None \<Rightarrow> Return (None, vpcPeeringConnectionStatusNotFound, None)
              | Some pc \<Rightarrow>
                  (case vpc_Status pc of
                     None \<Rightarrow> Return (None, vpcPeeringConnectionStatusNotFound, None)
                   | Some status \<Rightarrow>
                       (let statusCode = StringValue (vpcsr_Code status) in
                        if statusCode = VpcPeeringConnectionStateReasonCodeFailed
                        then Return (None, vpcPeeringConnectionStatusNotFound, None)
                        else if statusCode = VpcPeeringConnectionStateReasonCodeDeleted
                                \<or> statusCode = VpcPeeringConnectionStateReasonCodeExpired
                                \<or> statusCode = VpcPeeringConnectionStateReasonCodeRejected
                        then Return (None, vpcPeeringConnectionStatusNotFound, None)
                        else Return (Some vpcPeeringConnection, statusCode, None)))))"

definition attachmentStateNotFound :: string where
  "attachmentStateNotFound = ''NotFound''"

definition attachmentStateUnknown :: string where
  "attachmentStateUnknown = ''Unknown''"

datatype VpcAttachment = VpcAttachment (va_State: "string option")

definition StatusVPNGatewayVPCAttachmentState ::
  "string \<Rightarrow> (string \<Rightarrow> string \<Rightarrow> VpcAttachment option \<times> error option) \<Rightarrow> string \<Rightarrow> string
     \<Rightarrow> VpcAttachment option refresh" where
  "StatusVPNGatewayVPCAttachmentState InvalidVPNGatewayIDNotFound FindVPNGatewayVPCAttachment
       vpnGatewayID vpcID =
     (case FindVPNGatewayVPCAttachment vpnGatewayID vpcID of (vpcAttachment, err) \<Rightarrow>
        if ErrCodeEquals err InvalidVPNGatewayIDNotFound
        then Return (None, attachmentStateNotFound, None)
        else if err \<noteq> None then Return (None, attachmentStateUnknown, err)
        else (case vpcAttachment of
                None \<Rightarrow> Return (None, attachmentStateNotFound, None)
              | Some a \<Rightarrow> Return (Some vpcAttachment, StringValue (va_State a), None)))"

subsection \<open>Hosts, prefix lists, VPC endpoints, snapshot imports\<close>

text \<open>In the next three reducers \<open>output.State\<close> is read without a nil check on \<open>output\<close>.\<close>

datatype Host = Host (host_State: "string option")

definition StatusHostState ::
  "(string \<Rightarrow> Host option \<times> error option) \<Rightarrow> string \<Rightarrow> Host option refresh" where
  "StatusHostState FindHostByID id' =
     (case FindHostByID id' of (output, err) \<Rightarrow>
        if NotFound err then Return (None, [], None)
        else if err \<noteq> None then Return (None, [], err)
        else (case output of
                None \<Rightarrow> Panic
              | Some h \<Rightarrow> Return (Some output, StringValue (host_State h), None)))"

datatype ManagedPrefixList = ManagedPrefixList (mpl_State: "string option")

definition StatusManagedPrefixListState ::
  "(string \<Rightarrow> ManagedPrefixList option \<times> error option) \<Rightarrow> string
     \<Rightarrow> ManagedPrefixList option refresh" where
  "StatusManagedPrefixListState FindManagedPrefixListByID id' =
     (case FindManagedPrefixListByID id' of (output, err) \<Rightarrow>
        if NotFound err then Return (None, [], None)
        else if err \<noteq> None then Return (None, [], err)
        else (case output of
                None \<Rightarrow> Panic
              | Some l \<Rightarrow> Return (Some output, StringValue (mpl_State l), None)))"

datatype VpcEndpoint = VpcEndpoint (vpce_State: "string option")

definition StatusVPCEndpointState ::
  "(string \<Rightarrow> VpcEndpoint option \<times> error option) \<Rightarrow> string \<Rightarrow> VpcEndpoint option refresh" where
  "StatusVPCEndpointState FindVPCEndpointByID id' =
     (case FindVPCEndpointByID id' of (output, err) \<Rightarrow>
        if NotFound err then Return (None, [], None)
        else if err \<noteq> None then Return (None, [], err)
        else (case output of
                None \<Rightarrow> Panic
              | Some e \<Rightarrow> Return (Some output, StringValue (vpce_State e), None)))"

definition VPCEndpointRouteTableAssociationStatusReady :: string where
  "VPCEndpointRouteTableAssociationStatusReady = ''ready''"

text \<open>The finder returns an error only; the payload on success is the empty string.\<close>

definition StatusVPCEndpointRouteTableAssociation ::
  "(string \<Rightarrow> string \<Rightarrow> error option) \<Rightarrow> string \<Rightarrow> string \<Rightarrow> string refresh" where
  "StatusVPCEndpointRouteTableAssociation FindVPCEndpointRouteTableAssociationExists
       vpcEndpointID routeTableID =
     (let err = FindVPCEndpointRouteTableAssociationExists vpcEndpointID routeTableID in
      if NotFound err then Return (None, [], None)
      else if err \<noteq> None then Return (None, [], err)
      else Return (Some [], VPCEndpointRouteTableAssociationStatusReady, None))"

definition snapshotImportNotFound :: string where
  "snapshotImportNotFound = ''NotFound''"

datatype SnapshotTaskDetail = SnapshotTaskDetail (std_Status: "string option")

datatype ImportSnapshotTask = ImportSnapshotTask (SnapshotTaskDetail: "SnapshotTaskDetail option")

text \<open>
  \<open>detail := task.SnapshotTaskDetail\<close> is a pointer, and \<open>detail.Status\<close> is read without
  a nil check on it. \<open>tfec2.EBSSnapshotImportStateDeleting\<close> is a parameter.
\<close>

definition StatusEBSSnapshotImport ::
  "string \<Rightarrow> (string list \<Rightarrow> ImportSnapshotTask option list option \<times> error option) \<Rightarrow> string
     \<Rightarrow> SnapshotTaskDetail option refresh" where
  "StatusEBSSnapshotImport EBSSnapshotImportStateDeleting DescribeImportSnapshotTasks importTaskId =
     (case DescribeImportSnapshotTasks [importTaskId] of (resp, err) \<Rightarrow>
        if err \<noteq> None then Return (None, [], err)
        else (case resp of
                None \<Rightarrow> Return (None, snapshotImportNotFound, None)
              | Some [] \<Rightarrow> Return (None, snapshotImportNotFound, None)
              | Some (None # rest) \<Rightarrow> Return (None, snapshotImportNotFound, None)
              | Some (Some task # rest) \<Rightarrow>
                  (case SnapshotTaskDetail task of
                     None \<Rightarrow> Panic
                   | Some detail \<Rightarrow>
                       (let err' =
                          (if std_Status detail \<noteq> None
                              \<and> StringValue (std_Status detail) = EBSSnapshotImportStateDeleting
                           then Some (Errorf ''Snapshot import task is deleting'')
                           else err)
                        in Return (Some (SnapshotTaskDetail task),
                                   StringValue (std_Status detail), err')))))"

section \<open>The status reducer of \<open>aws/internal/service/sfn/waiter/status.go\<close>\<close>

datatype DescribeStateMachineOutput = DescribeStateMachineOutput (sm_Status: "string option")

text \<open>\<open>output.Status\<close> is read without a nil check on \<open>output\<close>.\<close>

definition statusStateMachine ::
  "(string \<Rightarrow> DescribeStateMachineOutput option \<times> error option) \<Rightarrow> string
     \<Rightarrow> DescribeStateMachineOutput option refresh" where
  "statusStateMachine FindStateMachineByARN stateMachineArn =
     (case FindStateMachineByARN stateMachineArn of (output, err) \<Rightarrow>
        if NotFound err then Return (None, [], None)
        else if err \<noteq> None then Return (None, [], err)
        else (case output of
                None \<Rightarrow> Panic
              | Some m \<Rightarrow> Return (Some output, StringValue (sm_Status m), None)))"

section \<open>The sweeper of \<open>internal/sweep/sweep.go\<close>\<close>

subsection \<open>\<open>SkipSweepError\<close>\<close>

definition SkipSweepError :: "error option \<Rightarrow> bool" where
  "SkipSweepError err =
     (if ErrMessageContains err ''RequestError'' ''send request failed'' then True
      else if ErrMessageContains err ''UnsupportedOperation'' [] then True
      else if ErrMessageContains err ''InvalidParameterValue''
                ''not permitted in this API version for your account'' then True
      else if ErrMessageContains err ''InvalidParameterValue'' ''Access Denied to API Version''
      then True
      else if ErrMessageContains err ''AccessDeniedException'' [] then True
      else if ErrMessageContains err ''BadRequestException'' ''not supported'' then True
      else if ErrMessageContains err ''InvalidAction'' ''is not valid'' then True
      else if ErrMessageContains err ''InvalidAction'' ''Unavailable Operation'' then True
      else if ErrMessageContains err ''InvalidKeySigningKeyStatus'' ''cannot be deleted because''
      then True
      else if ErrMessageContains err ''KeySigningKeyInParentDSRecord'' ''Due to DNS lookup failure''
      then True
      else if ErrMessageContains err ''UnsupportedCommandException''
                ''command is only supported in'' then True
      else False)"

text \<open>
  The specification's reading of the same function: a fixed table of (error code, message
  substring) entries, evaluated in order; the first entry that matches decides, and no
  match is a hard failure. Every entry of the table decides "skip".
\<close>

definition skipTable :: "(string \<times> string) list" where
  "skipTable =
     [(''RequestError'', ''send request failed''),
      (''UnsupportedOperation'', []),
      (''InvalidParameterValue'', ''not permitted in this API version for your account''),
      (''InvalidParameterValue'', ''Access Denied to API Version''),
      (''AccessDeniedException'', []),
      (''BadRequestException'', ''not supported''),
      (''InvalidAction'', ''is not valid''),
      (''InvalidAction'', ''Unavailable Operation''),
      (''InvalidKeySigningKeyStatus'', ''cannot be deleted because''),
      (''KeySigningKeyInParentDSRecord'', ''Due to DNS lookup failure''),
      (''UnsupportedCommandException'', ''command is only supported in'')]"

definition matchesEntry :: "error option \<Rightarrow> string \<times> string \<Rightarrow> bool" where
  "matchesEntry err entry = ErrMessageContains err (fst entry) (snd entry)"

fun firstMatch :: "error option \<Rightarrow> (string \<times> string) list \<Rightarrow> (string \<times> string) option" where
  "firstMatch err [] = None"
| "firstMatch err (entry # entries) =
     (if matchesEntry err entry then Some entry else firstMatch err entries)"

definition skipByTable :: "error option \<Rightarrow> bool" where
  "skipByTable err = (case firstMatch err skipTable of None \<Rightarrow> False | Some entry \<Rightarrow> True)"

subsection \<open>\<open>DeleteResource\<close>\<close>

text \<open>
  A delete function of a \<open>schema.Resource\<close> acts on the provider's side of the world: it is
  a function of the resource data \<open>d\<close>, the client \<open>meta\<close> and the state of the world, and
  returns its Go result with the new state of the world. The three function fields may be
  nil; \<open>resource.Delete\<close> is called without a nil check.
\<close>

datatype Severity = diag_Error | diag_Warning

datatype Diagnostic = Diagnostic (Severity: Severity) (Summary: string)

record ('d, 'm, 'w) Resource =
  DeleteContext :: "('d \<Rightarrow> 'm \<Rightarrow> 'w \<Rightarrow> Diagnostic list \<times> 'w) option"
  DeleteWithoutTimeout :: "('d \<Rightarrow> 'm \<Rightarrow> 'w \<Rightarrow> Diagnostic list \<times> 'w) option"
  Delete :: "('d \<Rightarrow> 'm \<Rightarrow> 'w \<Rightarrow> error option \<times> 'w) option"

record ('d, 'm, 'w) SweepResource =
  sr_d :: 'd
  sr_meta :: 'm
  sr_resource :: "('d, 'm, 'w) Resource"

definition NewSweepResource ::
  "('d, 'm, 'w) Resource \<Rightarrow> 'd \<Rightarrow> 'm \<Rightarrow> ('d, 'm, 'w) SweepResource" where
  "NewSweepResource resource' d meta = \<lparr>sr_d = d, sr_meta = meta, sr_resource = resource'\<rparr>"

text \<open>The loop over the diagnostics: the first one of severity \<open>diag.Error\<close> is returned.\<close>

fun diagsError :: "Diagnostic list \<Rightarrow> error option" where
  "diagsError [] = None"
| "diagsError (x # xs) =
     (if Severity x = diag_Error then Some (Errorf (''error deleting resource: '' @ Summary x))
      else diagsError xs)"

definition DeleteResource ::
  "('d, 'm, 'w) Resource \<Rightarrow> 'd \<Rightarrow> 'm \<Rightarrow> 'w \<Rightarrow> error option exec \<times> 'w" where
  "DeleteResource resource' d meta w =
     (case DeleteContext resource' of
        Some deleteContext \<Rightarrow>
          (case deleteContext d meta w of (diags, w') \<Rightarrow> (Return (diagsError diags), w'))
      | None \<Rightarrow>
          (case DeleteWithoutTimeout resource' of
             Some deleteWithoutTimeout \<Rightarrow>
               (case deleteWithoutTimeout d meta w of
                  (diags, w') \<Rightarrow> (Return (diagsError diags), w'))
           | None \<Rightarrow>
               (case Delete resource' of
                  None \<Rightarrow> (Panic, w)
                | Some delete \<Rightarrow> (case delete d meta w of (err, w') \<Rightarrow> (Return err, w')))))"

text \<open>A resource that has at least one of the three delete functions.\<close>

definition hasDelete :: "('d, 'm, 'w) Resource \<Rightarrow> bool" where
  "hasDelete resource' =
     (DeleteContext resource' \<noteq> None \<or> DeleteWithoutTimeout resource' \<noteq> None
      \<or> Delete resource' \<noteq> None)"

subsection \<open>The retry driver\<close>

text \<open>\<open>resource.RetryError\<close>, \<open>resource.RetryableError\<close> and \<open>resource.NonRetryableError\<close>.\<close>

datatype RetryError = RetryError (Err: error) (Retryable: bool)

definition RetryableError :: "error \<Rightarrow> RetryError" where
  "RetryableError err = RetryError err True"

definition NonRetryableError :: "error \<Rightarrow> RetryError" where
  "NonRetryableError err = RetryError err False"

text \<open>
  Modelled from the spec: the retry driver \<open>tfresource.RetryConfigContext\<close> (package
  \<open>internal/tfresource\<close>, not among the sources). Its states are Pending (initial), Target
  (terminal success), Failure (terminal, with the error) and TimedOut (terminal). On each
  poll a success moves it to Target, a retryable error leaves it Pending, and any other
  error moves it to Failure at once. The delay, the jitter, the poll interval, the minimum
  timeout and the overall timeout decide only how many polls fit before the deadline; the
  model takes that number, \<open>polls\<close>, in their place. A driver that is still Pending at the
  deadline is TimedOut and surfaces a \<open>TimeoutError\<close>. Cancellation through the context is
  not modelled.
\<close>

datatype RetryState = StatePending | StateTarget | StateFailure error | StateTimedOut

definition pollOnce ::
  "('w \<Rightarrow> RetryError option exec \<times> 'w) \<Rightarrow> 'w \<Rightarrow> RetryState exec \<times> 'w" where
  "pollOnce f w =
     (case f w of
        (Panic, w') \<Rightarrow> (Panic, w')
      | (Return None, w') \<Rightarrow> (Return StateTarget, w')
      | (Return (Some rerr), w') \<Rightarrow>
          (Return (if Retryable rerr then StatePending else StateFailure (Err rerr)), w'))"

fun RetryDriver ::
  "nat \<Rightarrow> ('w \<Rightarrow> RetryError option exec \<times> 'w) \<Rightarrow> 'w \<Rightarrow> RetryState exec \<times> 'w" where
  "RetryDriver 0 f w = (Return StateTimedOut, w)"
| "RetryDriver (Suc polls) f w =
     (case pollOnce f w of
        (Return StatePending, w') \<Rightarrow> RetryDriver polls f w'
      | (other, w') \<Rightarrow> (other, w'))"

definition timeoutError :: error where
  "timeoutError = TimeoutError ''timeout while waiting for the operation to succeed''"

fun terminalError :: "RetryState \<Rightarrow> error option" where
  "terminalError StateTarget = None"
| "terminalError (StateFailure err) = Some err"
| "terminalError StateTimedOut = Some timeoutError"
| "terminalError StatePending = Some timeoutError"

definition RetryConfigContext ::
  "nat \<Rightarrow> ('w \<Rightarrow> RetryError option exec \<times> 'w) \<Rightarrow> 'w \<Rightarrow> error option exec \<times> 'w" where
  "RetryConfigContext polls f w =
     (case RetryDriver polls f w of
        (Panic, w') \<Rightarrow> (Panic, w')
      | (Return state, w') \<Rightarrow> (Return (terminalError state), w'))"

text \<open>
  Modelled from the spec: \<open>tfresource.TimedOut\<close> (not among the sources) recognises the
  \<open>TimeoutError\<close> class, "deadline exceeded while still Pending", anywhere in the wrapping
  chain of the error; false on a nil error.
\<close>

fun IsTimeoutError :: "error \<Rightarrow> bool" where
  "IsTimeoutError (TimeoutError message) = True"
| "IsTimeoutError (Wrapf pre err) = IsTimeoutError err"
| "IsTimeoutError _ = False"

definition TimedOut :: "error option \<Rightarrow> bool" where
  "TimedOut err = (case err of None \<Rightarrow> False | Some e \<Rightarrow> IsTimeoutError e)"

subsection \<open>\<open>SweepOrchestratorContext\<close>\<close>

text \<open>
  The function literal handed to the retry driver: one call of \<open>DeleteResource\<close>, whose
  error is retryable when its text contains \<open>Throttling\<close> and not retryable otherwise.
\<close>

definition sweepRetryFunc ::
  "('d, 'm, 'w) SweepResource \<Rightarrow> 'w \<Rightarrow> RetryError option exec \<times> 'w" where
  "sweepRetryFunc sweepResource w =
     (case DeleteResource (sr_resource sweepResource) (sr_d sweepResource)
             (sr_meta sweepResource) w of
        (Panic, w') \<Rightarrow> (Panic, w')
      | (Return None, w') \<Rightarrow> (Return None, w')
      | (Return (Some err), w') \<Rightarrow>
          (if Contains (Error err) ''Throttling'' then (Return (Some (RetryableError err)), w')
           else (Return (Some (NonRetryableError err)), w')))"

text \<open>The function literal run by \<open>g.Go\<close> for one sweep resource.\<close>

definition sweepOne ::
  "nat \<Rightarrow> ('d, 'm, 'w) SweepResource \<Rightarrow> 'w \<Rightarrow> error option exec \<times> 'w" where
  "sweepOne polls sweepResource w =
     (case RetryConfigContext polls (sweepRetryFunc sweepResource) w of
        (Panic, w') \<Rightarrow> (Panic, w')
      | (Return err, w') \<Rightarrow>
          if TimedOut err
          then DeleteResource (sr_resource sweepResource) (sr_d sweepResource)
                 (sr_meta sweepResource) w'
          else (Return err, w'))"

text \<open>
  The \<open>for\<close> loop starts one goroutine per sweep resource and \<open>g.Wait()\<close> joins them. The
  model runs the items one after the other in the order of the list, each on the world the
  one before it left: one of the schedules of the goroutines. It keeps every item's result.
\<close>

fun sweepEach ::
  "nat \<Rightarrow> ('d, 'm, 'w) SweepResource list \<Rightarrow> 'w \<Rightarrow> error option exec list \<times> 'w" where
  "sweepEach polls [] w = ([], w)"
| "sweepEach polls (sweepResource # rest) w =
     (case sweepOne polls sweepResource w of
        (result, w') \<Rightarrow>
          (case sweepEach polls rest w' of (results, w'') \<Rightarrow> (result # results, w'')))"

text \<open>
  \<open>multierror.Group.Wait\<close> collects the errors that are not nil; \<open>ErrorOrNil\<close> is nil when
  there is none. A \<open>*multierror.Error\<close> is modelled by its list \<open>Errors\<close>.
\<close>

fun Wait :: "error option exec list \<Rightarrow> error list" where
  "Wait [] = []"
| "Wait (Return (Some err) # results) = err # Wait results"
| "Wait (other # results) = Wait results"

definition ErrorOrNil :: "error list \<Rightarrow> error list option" where
  "ErrorOrNil errors = (if errors = [] then None else Some errors)"

text \<open>
  A panic in a goroutine ends the process. The timing parameters of the source are the
  driver's, and are replaced by \<open>polls\<close> as there.
\<close>

definition SweepOrchestratorContext ::
  "nat \<Rightarrow> ('d, 'm, 'w) SweepResource list \<Rightarrow> 'w \<Rightarrow> error list option exec \<times> 'w" where
  "SweepOrchestratorContext polls sweepResources w =
     (case sweepEach polls sweepResources w of
        (results, w') \<Rightarrow>
          (if Panic \<in> set results then Panic else Return (ErrorOrNil (Wait results)), w'))"

text \<open>
  For stating how often an item's delete is attempted: one call of \<open>DeleteResource\<close> on a
  sweep resource, the world after \<open>k\<close> such calls in a row, and whether a result of the
  call is an error whose text contains \<open>Throttling\<close>.
\<close>

definition deleteOnce :: "('d, 'm, 'w) SweepResource \<Rightarrow> 'w \<Rightarrow> error option exec \<times> 'w" where
  "deleteOnce sweepResource w =
     DeleteResource (sr_resource sweepResource) (sr_d sweepResource) (sr_meta sweepResource) w"

fun afterDeletes :: "nat \<Rightarrow> ('d, 'm, 'w) SweepResource \<Rightarrow> 'w \<Rightarrow> 'w" where
  "afterDeletes 0 sweepResource w = w"
| "afterDeletes (Suc k) sweepResource w =
     afterDeletes k sweepResource (snd (deleteOnce sweepResource w))"

fun throttled :: "error option exec \<Rightarrow> bool" where
  "throttled (Return (Some err)) = Contains (Error err) ''Throttling''"
| "throttled _ = False"

text \<open>
  Sweep resources for the examples: the world is the log of the identifiers whose delete
  was called, the resource data is the identifier, and the resource's plain \<open>Delete\<close>
  answers from a table by the identifier and the number of calls logged so far for it.
\<close>

definition loggedDelete ::
  "(string \<Rightarrow> nat \<Rightarrow> error option) \<Rightarrow> string \<Rightarrow> unit \<Rightarrow> string list \<Rightarrow> error option \<times> string list" where
  "loggedDelete answers d meta w = (answers d (count_list w d), w @ [d])"

definition loggedResource ::
  "(string \<Rightarrow> nat \<Rightarrow> error option) \<Rightarrow> string \<Rightarrow> (string, unit, string list) SweepResource" where
  "loggedResource answers d =
     NewSweepResource
       \<lparr>DeleteContext = None, DeleteWithoutTimeout = None, Delete = Some (loggedDelete answers)\<rparr>
       d ()"

definition throttlingError :: error where
  "throttlingError = AWSError ''Throttling'' ''Rate exceeded''"

definition accessDeniedError :: error where
  "accessDeniedError = AWSError ''AccessDenied'' ''not allowed''"

text \<open>A rate-limit error of the EC2 API; its text does not contain \<open>Throttling\<close>.\<close>

definition requestLimitError :: error where
  "requestLimitError = AWSError ''RequestLimitExceeded'' ''Request limit exceeded.''"

text \<open>
  The resource \<open>throttled\<close> is throttled at every call, \<open>busy\<close> at its first two calls,
  \<open>denied\<close> fails with another error, and every other delete succeeds.
\<close>

definition exampleAnswers :: "string \<Rightarrow> nat \<Rightarrow> error option" where
  "exampleAnswers d n =
     (if d = ''throttled'' then Some throttlingError
      else if d = ''busy'' \<and> n < 2 then Some throttlingError
      else if d = ''denied'' then Some accessDeniedError
      else None)"

subsection \<open>\<open>SharedRegionalSweepClient\<close> and the cache \<open>SweeperClients\<close>\<close>

record Config =
  MaxRetries :: int
  Region :: string
  AssumeRoleARN :: string
  AssumeRoleDurationSeconds :: int
  AssumeRoleExternalID :: string
  AssumeRoleSessionName :: string

definition defaultSweeperAssumeRoleDurationSeconds :: int where
  "defaultSweeperAssumeRoleDurationSeconds = 3600"

text \<open>
  What the function reads from outside the file: the process environment (\<open>os.Getenv\<close>),
  \<open>strconv.Atoi\<close>, and the constants and functions of package \<open>conns\<close>, which is not among
  the sources (the names of the environment variables, \<open>RequireOneOfEnvVar\<close> and
  \<open>RequireEnvVar\<close>, of which only the error is used, and \<open>conf.Client()\<close>, which constructs
  the client). They are the fields of one parameter.
\<close>

record 'c Environment =
  Getenv :: "string \<Rightarrow> string"
  Atoi :: "string \<Rightarrow> int \<times> error option"
  EnvVarProfile :: string
  EnvVarAccessKeyId :: string
  EnvVarContainerCredentialsFullUri :: string
  EnvVarSecretAccessKey :: string
  EnvVarAssumeRoleARN :: string
  EnvVarAssumeRoleDuration :: string
  EnvVarAssumeRoleExternalID :: string
  EnvVarAssumeRoleSessionName :: string
  RequireOneOfEnvVar :: "string list \<Rightarrow> string \<Rightarrow> error option"
  RequireEnvVar :: "string \<Rightarrow> string \<Rightarrow> error option"
  Client :: "Config \<Rightarrow> 'c \<times> error option"

text \<open>
  The part of the function after the cache lookup and before the store: the checks of the
  credentials, the configuration and the construction of the client. \<open>Inl\<close> is the error
  the function returns, \<open>Inr\<close> the client constructed.
\<close>

definition assumeRole :: "'c Environment \<Rightarrow> Config \<Rightarrow> error + Config" where
  "assumeRole env conf =
     (let role = Getenv env (EnvVarAssumeRoleARN env) in
      if role \<noteq> [] then
        (let conf1 = conf\<lparr>AssumeRoleARN := role,
                            AssumeRoleDurationSeconds := defaultSweeperAssumeRoleDurationSeconds\<rparr>;
             v = Getenv env (EnvVarAssumeRoleDuration env)
         in case (if v \<noteq> [] then
                    (case Atoi env v of
                       (d, Some err) \<Rightarrow>
                         Inl (Wrapf (''environment variable '' @ EnvVarAssumeRoleDuration env
                                       @ '': '') err)
                     | (d, None) \<Rightarrow> Inr (conf1\<lparr>AssumeRoleDurationSeconds := d\<rparr>))
                  else Inr conf1) of
              Inl err \<Rightarrow> Inl err
            | Inr conf2 \<Rightarrow>
                (let v2 = Getenv env (EnvVarAssumeRoleExternalID env);
                     conf3 = (if v2 \<noteq> [] then conf2\<lparr>AssumeRoleExternalID := v2\<rparr> else conf2);
                     v3 = Getenv env (EnvVarAssumeRoleSessionName env);
                     conf4 = (if v3 \<noteq> [] then conf3\<lparr>AssumeRoleSessionName := v3\<rparr> else conf3)
                 in Inr conf4))
      else Inr conf)"

definition newSweepClient :: "'c Environment \<Rightarrow> string \<Rightarrow> error + 'c" where
  "newSweepClient env region =
     (case RequireOneOfEnvVar env
             [EnvVarProfile env, EnvVarAccessKeyId env, EnvVarContainerCredentialsFullUri env]
             ''credentials for running sweepers'' of
        Some err \<Rightarrow> Inl err
      | None \<Rightarrow>
          (case (if Getenv env (EnvVarAccessKeyId env) \<noteq> []
                 then RequireEnvVar env (EnvVarSecretAccessKey env)
                        (''static credentials value when using '' @ EnvVarAccessKeyId env)
                 else None) of
             Some err \<Rightarrow> Inl err
           | None \<Rightarrow>
               (case assumeRole env
                       \<lparr>MaxRetries = 5, Region = region, AssumeRoleARN = [],
                        AssumeRoleDurationSeconds = 0, AssumeRoleExternalID = [],
                        AssumeRoleSessionName = []\<rparr> of
                  Inl err \<Rightarrow> Inl err
                | Inr conf \<Rightarrow>
                    (case Client env conf of
                       (client, Some err) \<Rightarrow> Inl (Wrapf ''error getting AWS client: '' err)
                     | (client, None) \<Rightarrow> Inr client))))"

text \<open>
  The cache is a package variable of type \<open>map[string]interface{}\<close>, declared without a
  value: \<open>None\<close> is the nil map (reading it finds nothing, writing it panics), \<open>Some m\<close> a
  map made elsewhere. The function returns its Go result, (client, error), and the cache
  it leaves.
\<close>

type_synonym 'c SweeperClients = "(string \<rightharpoonup> 'c) option"

definition lookupClient :: "'c SweeperClients \<Rightarrow> string \<Rightarrow> 'c option" where
  "lookupClient cache region = (case cache of None \<Rightarrow> None | Some m \<Rightarrow> m region)"

definition storeClient ::
  "'c SweeperClients \<Rightarrow> string \<Rightarrow> 'c \<Rightarrow> ('c option \<times> error option) exec \<times> 'c SweeperClients" where
  "storeClient cache region client =
     (case cache of
        None \<Rightarrow> (Panic, None)
      | Some m \<Rightarrow> (Return (Some client, None), Some (m(region \<mapsto> client))))"

definition SharedRegionalSweepClient ::
  "'c Environment \<Rightarrow> 'c SweeperClients \<Rightarrow> string
     \<Rightarrow> ('c option \<times> error option) exec \<times> 'c SweeperClients" where
  "SharedRegionalSweepClient env cache region =
     (case lookupClient cache region of
        Some client \<Rightarrow> (Return (Some client, None), cache)
      | None \<Rightarrow>
          (case newSweepClient env region of
             Inl err \<Rightarrow> (Return (None, Some err), cache)
           | Inr client \<Rightarrow> storeClient cache region client))"

text \<open>A series of calls, one after the other, each with its environment and region.\<close>

fun sweepClientCalls ::
  "('c Environment \<times> string) list \<Rightarrow> 'c SweeperClients \<Rightarrow> 'c SweeperClients" where
  "sweepClientCalls [] cache = cache"
| "sweepClientCalls ((env, region) # calls) cache =
     sweepClientCalls calls (snd (SharedRegionalSweepClient env cache region))"

text \<open>
  Calls that overlap in time. The function takes no lock and the cache is a plain map, so
  between the lookup of one call and its store another call may run. A call is at its
  start, or has missed the cache and is about to construct and store a client, or has
  returned. A schedule names, step by step, the call that moves. The system counts the
  clients constructed.
\<close>

datatype 'c Call =
    AtLookup string
  | AfterMiss string
  | Returned "('c option \<times> error option) exec"

record 'c Sweepers =
  clients :: "'c SweeperClients"
  constructed :: nat
  calls :: "'c Call list"

definition stepCall :: "'c Environment \<Rightarrow> nat \<Rightarrow> 'c Sweepers \<Rightarrow> 'c Sweepers" where
  "stepCall env i sys =
     (if i < length (calls sys) then
        (case calls sys ! i of
           AtLookup region \<Rightarrow>
             (case lookupClient (clients sys) region of
                Some client \<Rightarrow> sys\<lparr>calls := (calls sys)[i := Returned (Return (Some client, None))]\<rparr>
              | None \<Rightarrow> sys\<lparr>calls := (calls sys)[i := AfterMiss region]\<rparr>)
         | AfterMiss region \<Rightarrow>
             (case newSweepClient env region of
                Inl err \<Rightarrow> sys\<lparr>calls := (calls sys)[i := Returned (Return (None, Some err))]\<rparr>
              | Inr client \<Rightarrow>
                  (case storeClient (clients sys) region client of
                     (result, cache) \<Rightarrow>
                       sys\<lparr>clients := cache, constructed := Suc (constructed sys),
                           calls := (calls sys)[i := Returned result]\<rparr>))
         | Returned result \<Rightarrow> sys)
      else sys)"

fun runSchedule :: "'c Environment \<Rightarrow> nat list \<Rightarrow> 'c Sweepers \<Rightarrow> 'c Sweepers" where
  "runSchedule env [] sys = sys"
| "runSchedule env (i # schedule) sys = runSchedule env schedule (stepCall env i sys)"

text \<open>
  An environment for the examples: static credentials, no role to assume, and a
  constructor that returns the region's name as the client.
\<close>

definition exampleEnvironment :: "string Environment" where
  "exampleEnvironment =
     \<lparr>Getenv = (\<lambda>name. if name = ''AWS_ACCESS_KEY_ID'' then ''AKIAEXAMPLE''
                        else if name = ''AWS_SECRET_ACCESS_KEY'' then ''secret'' else []),
      Atoi = (\<lambda>v. (0, Some (Errorf ''invalid syntax''))),
      EnvVarProfile = ''AWS_PROFILE'',
      EnvVarAccessKeyId = ''AWS_ACCESS_KEY_ID'',
      EnvVarContainerCredentialsFullUri = ''AWS_CONTAINER_CREDENTIALS_FULL_URI'',
      EnvVarSecretAccessKey = ''AWS_SECRET_ACCESS_KEY'',
      EnvVarAssumeRoleARN = ''TF_AWS_ASSUME_ROLE_ARN'',
      EnvVarAssumeRoleDuration = ''TF_AWS_ASSUME_ROLE_DURATION'',
      EnvVarAssumeRoleExternalID = ''TF_AWS_ASSUME_ROLE_EXTERNAL_ID'',
      EnvVarAssumeRoleSessionName = ''TF_AWS_ASSUME_ROLE_SESSION_NAME'',
      RequireOneOfEnvVar = (\<lambda>names usage. None),
      RequireEnvVar = (\<lambda>name usage. None),
      Client = (\<lambda>conf. (Region conf, None))\<rparr>"

section \<open>Properties of the status reducers\<close>

text \<open>
  C3. A VPC peering connection that the describe call returns without error, and whose
  status code is one of the terminal lifecycle values \<open>deleted\<close>, \<open>expired\<close> or \<open>rejected\<close>,
  is reported by \<open>StatusVPCPeeringConnection\<close> as (nil, NotFound, nil).
\<close>

theorem StatusVPCPeeringConnection_terminal_code:
  assumes "FindVPCPeeringConnectionByID vpcPeeringConnectionID = (Some pc, None)"
    and "vpc_Status pc = Some status"
    and "vpcsr_Code status = Some code"
    and "code = ''deleted'' \<or> code = ''expired'' \<or> code = ''rejected''"
  shows "StatusVPCPeeringConnection ErrCodeInvalidVPCPeeringConnectionIDNotFound
           FindVPCPeeringConnectionByID vpcPeeringConnectionID
         = Return (None, ''NotFound'', None)"
  using assms
  by (auto simp: StatusVPCPeeringConnection_def ErrCodeEquals_def StringValue_def
      vpcPeeringConnectionStatusNotFound_def VpcPeeringConnectionStateReasonCodeDeleted_def
      VpcPeeringConnectionStateReasonCodeExpired_def
      VpcPeeringConnectionStateReasonCodeRejected_def)

theorem StatusVPCPeeringConnection_terminal_code_witness:
  "StatusVPCPeeringConnection ''InvalidVpcPeeringConnectionID.NotFound''
     (\<lambda>i. (Some (VpcPeeringConnection
                   (Some (VpcPeeringConnectionStateReason (Some ''expired'') None))), None))
     ''pcx-1''
   = Return (None, ''NotFound'', None)"
  by (rule StatusVPCPeeringConnection_terminal_code
        [where pc = "VpcPeeringConnection
                       (Some (VpcPeeringConnectionStateReason (Some ''expired'') None))"
           and status = "VpcPeeringConnectionStateReason (Some ''expired'') None"
           and code = "''expired''"])
     simp_all

text \<open>
  C10. \<open>StatusEBSSnapshotImport\<close> is not total: on a describe response whose first import
  snapshot task is not nil and has a nil \<open>SnapshotTaskDetail\<close>, the closure dereferences the
  nil pointer and panics instead of returning a triple.
\<close>

theorem StatusEBSSnapshotImport_nil_detail_panics:
  "StatusEBSSnapshotImport EBSSnapshotImportStateDeleting
     (\<lambda>ids. (Some [Some (ImportSnapshotTask None)], None)) importTaskId = Panic"
  by (simp add: StatusEBSSnapshotImport_def)

lemmas reducer_defs =
  StatusCarrierGatewayState_def
  StatusLocalGatewayRouteTableVPCAssociationState_def
  StatusClientVPNEndpoint_def
  StatusClientVPNAuthorizationRule_def
  StatusClientVPNNetworkAssociation_def
  StatusClientVPNRoute_def
  StatusInstanceIAMInstanceProfile_def
  StatusRoute_def
  StatusRouteTable_def
  StatusRouteTableAssociationState_def
  StatusSecurityGroup_def
  StatusSubnetMapCustomerOwnedIPOnLaunch_def
  StatusSubnetMapPublicIPOnLaunch_def
  StatusTransitGatewayPrefixListReferenceState_def
  StatusTransitGatewayRouteTablePropagationState_def
  StatusVPCAttribute_def
  StatusVPCPeeringConnection_def
  StatusVPNGatewayVPCAttachmentState_def
  StatusHostState_def
  StatusManagedPrefixListState_def
  StatusVPCEndpointState_def
  StatusVPCEndpointRouteTableAssociation_def
  StatusEBSSnapshotImport_def
  statusStateMachine_def

lemmas status_defs =
  carrierGatewayStateNotFound_def
  carrierGatewayStateUnknown_def
  ClientVPNEndpointStatusNotFound_def
  ClientVPNEndpointStatusUnknown_def
  ClientVPNAuthorizationRuleStatusNotFound_def
  ClientVPNAuthorizationRuleStatusUnknown_def
  ClientVPNNetworkAssociationStatusNotFound_def
  ClientVPNNetworkAssociationStatusUnknown_def
  ClientVPNRouteStatusNotFound_def
  ClientVPNRouteStatusUnknown_def
  SecurityGroupStatusNotFound_def
  SecurityGroupStatusUnknown_def
  vpcPeeringConnectionStatusNotFound_def
  vpcPeeringConnectionStatusUnknown_def
  attachmentStateNotFound_def
  attachmentStateUnknown_def
  snapshotImportNotFound_def

lemma ErrCodeEquals_AWSError:
  "ErrCodeEquals (Some (AWSError code message)) code' = (code = code')"
  by (simp add: ErrCodeEquals_def)

lemma NotFound_NotFoundError: "NotFound (Some (NotFoundError message))"
  by (simp add: NotFound_def)

lemma NotFound_AWSError: "\<not> NotFound (Some (AWSError code message))"
  by (simp add: NotFound_def)

text \<open>
  C1, as the code has it. Twenty of the reducers classify a not-found error of their
  describe call: by an error code of the API (\<open>ErrCodeEquals\<close>) or by the \<open>NotFoundError\<close>
  class of the finders (\<open>NotFound\<close>). On such an error each of them returns a nil payload
  and a nil error. The status returned with them is the reducer's own: \<open>NotFound\<close> where
  the reducer declares a NotFound status (carrier gateway, the four Client VPN reducers,
  security group, VPC peering connection, VPN gateway attachment), the empty string in ten
  reducers, and \<open>false\<close> in the two subnet reducers. The other four reducers
  (\<open>StatusLocalGatewayRouteTableVPCAssociationState\<close>, the two transit gateway reducers and
  \<open>StatusEBSSnapshotImport\<close>) classify no error as not-found.
\<close>

theorem status_not_found_error:
  "(ErrCodeEquals (snd (FindCarrierGatewayByID i)) nf \<longrightarrow>
      StatusCarrierGatewayState nf FindCarrierGatewayByID i = Return (None, ''NotFound'', None))
  \<and> (ErrCodeEquals (snd (DescribeClientVpnEndpoints [i])) nf \<longrightarrow>
      StatusClientVPNEndpoint nf DescribeClientVpnEndpoints i = Return (None, ''NotFound'', None))
  \<and> (ErrCodeEquals (snd (FindClientVPNAuthorizationRuleByID i)) nf \<longrightarrow>
      StatusClientVPNAuthorizationRule nf FindClientVPNAuthorizationRuleByID i = Return (None, ''NotFound'', None))
  \<and> ((ErrCodeEquals (snd (DescribeClientVpnTargetNetworks j [i])) nf \<or> ErrCodeEquals (snd (DescribeClientVpnTargetNetworks j [i])) nf') \<longrightarrow>
      StatusClientVPNNetworkAssociation nf nf' DescribeClientVpnTargetNetworks i j = Return (None, ''NotFound'', None))
  \<and> (ErrCodeEquals (snd (FindClientVPNRouteByID i)) nf \<longrightarrow>
      StatusClientVPNRoute nf FindClientVPNRouteByID i = Return (None, ''NotFound'', None))
  \<and> (ErrCodeEquals (snd (FindInstanceByID i)) nf \<longrightarrow>
      StatusInstanceIAMInstanceProfile nf InstanceProfileARNToName FindInstanceByID i = Return (None, [], None))
  \<and> (NotFound (snd (routeFinder i j)) \<longrightarrow>
      StatusRoute routeFinder i j = Return (None, [], None))
  \<and> (NotFound (snd (FindRouteTableByID i)) \<longrightarrow>
      StatusRouteTable FindRouteTableByID i = Return (None, [], None))
  \<and> (NotFound (snd (FindRouteTableAssociationByID i)) \<longrightarrow>
      StatusRouteTableAssociationState FindRouteTableAssociationByID i = Return (None, [], None))
  \<and> (NotFound (snd (FindSecurityGroupByID i)) \<longrightarrow>
      StatusSecurityGroup FindSecurityGroupByID i = Return (None, ''NotFound'', None))
  \<and> (ErrCodeEquals (snd (FindSubnetByID i)) nf \<longrightarrow>
      StatusSubnetMapCustomerOwnedIPOnLaunch nf FindSubnetByID i = Return (None, ''false'', None))
  \<and> (ErrCodeEquals (snd (FindSubnetByID i)) nf \<longrightarrow>
      StatusSubnetMapPublicIPOnLaunch nf FindSubnetByID i = Return (None, ''false'', None))
  \<and> (ErrCodeEquals (snd (FindVPCAttribute i j)) nf \<longrightarrow>
      StatusVPCAttribute nf FindVPCAttribute i j = Return (None, [], None))
  \<and> (ErrCodeEquals (snd (FindVPCPeeringConnectionByID i)) nf \<longrightarrow>
      StatusVPCPeeringConnection nf FindVPCPeeringConnectionByID i = Return (None, ''NotFound'', None))
  \<and> (ErrCodeEquals (snd (FindVPNGatewayVPCAttachment i j)) nf \<longrightarrow>
      StatusVPNGatewayVPCAttachmentState nf FindVPNGatewayVPCAttachment i j = Return (None, ''NotFound'', None))
  \<and> (NotFound (snd (FindHostByID i)) \<longrightarrow>
      StatusHostState FindHostByID i = Return (None, [], None))
  \<and> (NotFound (snd (FindManagedPrefixListByID i)) \<longrightarrow>
      StatusManagedPrefixListState FindManagedPrefixListByID i = Return (None, [], None))
  \<and> (NotFound (snd (FindVPCEndpointByID i)) \<longrightarrow>
      StatusVPCEndpointState FindVPCEndpointByID i = Return (None, [], None))
  \<and> (NotFound (FindVPCEndpointRouteTableAssociationExists i j) \<longrightarrow>
      StatusVPCEndpointRouteTableAssociation FindVPCEndpointRouteTableAssociationExists i j = Return (None, [], None))
  \<and> (NotFound (snd (FindStateMachineByARN i)) \<longrightarrow>
      statusStateMachine FindStateMachineByARN i = Return (None, [], None))"
  by (auto simp: reducer_defs status_defs split: prod.splits)

text \<open>
  The theorem at an error of code \<open>X.NotFound\<close>, respectively at a \<open>NotFoundError\<close>.
\<close>

theorem status_not_found_error_witness:
  "StatusCarrierGatewayState ''X.NotFound'' (\<lambda>a. (None, Some (AWSError ''X.NotFound'' ''gone''))) ''id-1''
     = Return (None, ''NotFound'', None)
  \<and> StatusClientVPNEndpoint ''X.NotFound'' (\<lambda>a. (None, Some (AWSError ''X.NotFound'' ''gone''))) ''id-1''
     = Return (None, ''NotFound'', None)
  \<and> StatusClientVPNAuthorizationRule ''X.NotFound'' (\<lambda>a. (None, Some (AWSError ''X.NotFound'' ''gone''))) ''id-1''
     = Return (None, ''NotFound'', None)
  \<and> StatusClientVPNNetworkAssociation ''X.NotFound'' ''Y.NotFound'' (\<lambda>a b. (None, Some (AWSError ''X.NotFound'' ''gone''))) ''id-1'' ''id-2''
     = Return (None, ''NotFound'', None)
  \<and> StatusClientVPNRoute ''X.NotFound'' (\<lambda>a. (None, Some (AWSError ''X.NotFound'' ''gone''))) ''id-1''
     = Return (None, ''NotFound'', None)
  \<and> StatusInstanceIAMInstanceProfile ''X.NotFound'' (\<lambda>arn. (arn, None)) (\<lambda>a. (None, Some (AWSError ''X.NotFound'' ''gone''))) ''id-1''
     = Return (None, [], None)
  \<and> StatusRoute (\<lambda>a b. (None :: unit option, Some (NotFoundError ''empty result''))) ''id-1'' ''id-2''
     = Return (None, [], None)
  \<and> StatusRouteTable (\<lambda>a. (None :: unit option, Some (NotFoundError ''empty result''))) ''id-1''
     = Return (None, [], None)
  \<and> StatusRouteTableAssociationState (\<lambda>a. (None, Some (NotFoundError ''empty result''))) ''id-1''
     = Return (None, [], None)
  \<and> StatusSecurityGroup (\<lambda>a. (None :: unit option, Some (NotFoundError ''empty result''))) ''id-1''
     = Return (None, ''NotFound'', None)
  \<and> StatusSubnetMapCustomerOwnedIPOnLaunch ''X.NotFound'' (\<lambda>a. (None, Some (AWSError ''X.NotFound'' ''gone''))) ''id-1''
     = Return (None, ''false'', None)
  \<and> StatusSubnetMapPublicIPOnLaunch ''X.NotFound'' (\<lambda>a. (None, Some (AWSError ''X.NotFound'' ''gone''))) ''id-1''
     = Return (None, ''false'', None)
  \<and> StatusVPCAttribute ''X.NotFound'' (\<lambda>a b. (None, Some (AWSError ''X.NotFound'' ''gone''))) ''id-1'' ''id-2''
     = Return (None, [], None)
  \<and> StatusVPCPeeringConnection ''X.NotFound'' (\<lambda>a. (None, Some (AWSError ''X.NotFound'' ''gone''))) ''id-1''
     = Return (None, ''NotFound'', None)
  \<and> StatusVPNGatewayVPCAttachmentState ''X.NotFound'' (\<lambda>a b. (None, Some (AWSError ''X.NotFound'' ''gone''))) ''id-1'' ''id-2''
     = Return (None, ''NotFound'', None)
  \<and> StatusHostState (\<lambda>a. (None, Some (NotFoundError ''empty result''))) ''id-1''
     = Return (None, [], None)
  \<and> StatusManagedPrefixListState (\<lambda>a. (None, Some (NotFoundError ''empty result''))) ''id-1''
     = Return (None, [], None)
  \<and> StatusVPCEndpointState (\<lambda>a. (None, Some (NotFoundError ''empty result''))) ''id-1''
     = Return (None, [], None)
  \<and> StatusVPCEndpointRouteTableAssociation (\<lambda>a b. Some (NotFoundError ''empty result'')) ''id-1'' ''id-2''
     = Return (None, [], None)
  \<and> statusStateMachine (\<lambda>a. (None, Some (NotFoundError ''empty result''))) ''id-1''
     = Return (None, [], None)"
  using status_not_found_error
    [where nf = "''X.NotFound''"
       and nf' = "''Y.NotFound''"
       and i = "''id-1''"
       and j = "''id-2''"
       and InstanceProfileARNToName = "(\<lambda>arn. (arn, None))"
       and FindCarrierGatewayByID = "(\<lambda>a. (None, Some (AWSError ''X.NotFound'' ''gone'')))"
       and DescribeClientVpnEndpoints = "(\<lambda>a. (None, Some (AWSError ''X.NotFound'' ''gone'')))"
       and FindClientVPNAuthorizationRuleByID = "(\<lambda>a. (None, Some (AWSError ''X.NotFound'' ''gone'')))"
       and DescribeClientVpnTargetNetworks = "(\<lambda>a b. (None, Some (AWSError ''X.NotFound'' ''gone'')))"
       and FindClientVPNRouteByID = "(\<lambda>a. (None, Some (AWSError ''X.NotFound'' ''gone'')))"
       and FindInstanceByID = "(\<lambda>a. (None, Some (AWSError ''X.NotFound'' ''gone'')))"
       and routeFinder = "(\<lambda>a b. (None :: unit option, Some (NotFoundError ''empty result'')))"
       and FindRouteTableByID = "(\<lambda>a. (None :: unit option, Some (NotFoundError ''empty result'')))"
       and FindRouteTableAssociationByID = "(\<lambda>a. (None, Some (NotFoundError ''empty result'')))"
       and FindSecurityGroupByID = "(\<lambda>a. (None :: unit option, Some (NotFoundError ''empty result'')))"
       and FindSubnetByID = "(\<lambda>a. (None, Some (AWSError ''X.NotFound'' ''gone'')))"
       and FindVPCAttribute = "(\<lambda>a b. (None, Some (AWSError ''X.NotFound'' ''gone'')))"
       and FindVPCPeeringConnectionByID = "(\<lambda>a. (None, Some (AWSError ''X.NotFound'' ''gone'')))"
       and FindVPNGatewayVPCAttachment = "(\<lambda>a b. (None, Some (AWSError ''X.NotFound'' ''gone'')))"
       and FindHostByID = "(\<lambda>a. (None, Some (NotFoundError ''empty result'')))"
       and FindManagedPrefixListByID = "(\<lambda>a. (None, Some (NotFoundError ''empty result'')))"
       and FindVPCEndpointByID = "(\<lambda>a. (None, Some (NotFoundError ''empty result'')))"
       and FindVPCEndpointRouteTableAssociationExists = "(\<lambda>a b. Some (NotFoundError ''empty result''))"
       and FindStateMachineByARN = "(\<lambda>a. (None, Some (NotFoundError ''empty result'')))"]
  by (simp add: ErrCodeEquals_AWSError NotFound_NotFoundError)

text \<open>
  C1 as stated fails: on a \<open>NotFoundError\<close> of its finder, \<open>StatusRouteTable\<close> returns the
  empty status, not the status \<open>NotFound\<close>.
\<close>

theorem StatusRouteTable_not_found_error_empty_status:
  "NotFound (Some (NotFoundError ''empty result''))
   \<and> StatusRouteTable (\<lambda>a. (None :: unit option, Some (NotFoundError ''empty result''))) ''rtb-1''
       = Return (None, [], None)
   \<and> StatusRouteTable (\<lambda>a. (None :: unit option, Some (NotFoundError ''empty result''))) ''rtb-1''
       \<noteq> Return (None, ''NotFound'', None)"
  by (simp add: StatusRouteTable_def NotFound_def)

text \<open>
  C2, as the code has it. When the describe call fails with an error that the reducer does
  not classify as not-found, every reducer returns a nil payload and that error. The status
  returned with them is \<open>Unknown\<close> in the eight reducers that declare an Unknown status, the
  empty string in fourteen reducers, and \<open>false\<close> in the two subnet reducers.
\<close>

theorem status_other_error:
  "(snd (FindCarrierGatewayByID i) \<noteq> None \<and> \<not> ErrCodeEquals (snd (FindCarrierGatewayByID i)) nf \<longrightarrow>
      StatusCarrierGatewayState nf FindCarrierGatewayByID i = Return (None, ''Unknown'', snd (FindCarrierGatewayByID i)))
  \<and> (snd (DescribeLocalGatewayRouteTableVpcAssociations [i]) \<noteq> None \<longrightarrow>
      StatusLocalGatewayRouteTableVPCAssociationState DescribeLocalGatewayRouteTableVpcAssociations i = Return (None, [], snd (DescribeLocalGatewayRouteTableVpcAssociations [i])))
  \<and> (snd (DescribeClientVpnEndpoints [i]) \<noteq> None \<and> \<not> ErrCodeEquals (snd (DescribeClientVpnEndpoints [i])) nf \<longrightarrow>
      StatusClientVPNEndpoint nf DescribeClientVpnEndpoints i = Return (None, ''Unknown'', snd (DescribeClientVpnEndpoints [i])))
  \<and> (snd (FindClientVPNAuthorizationRuleByID i) \<noteq> None \<and> \<not> ErrCodeEquals (snd (FindClientVPNAuthorizationRuleByID i)) nf \<longrightarrow>
      StatusClientVPNAuthorizationRule nf FindClientVPNAuthorizationRuleByID i = Return (None, ''Unknown'', snd (FindClientVPNAuthorizationRuleByID i)))
  \<and> (snd (DescribeClientVpnTargetNetworks j [i]) \<noteq> None \<and> \<not> (ErrCodeEquals (snd (DescribeClientVpnTargetNetworks j [i])) nf \<or> ErrCodeEquals (snd (DescribeClientVpnTargetNetworks j [i])) nf') \<longrightarrow>
      StatusClientVPNNetworkAssociation nf nf' DescribeClientVpnTargetNetworks i j = Return (None, ''Unknown'', snd (DescribeClientVpnTargetNetworks j [i])))
  \<and> (snd (FindClientVPNRouteByID i) \<noteq> None \<and> \<not> ErrCodeEquals (snd (FindClientVPNRouteByID i)) nf \<longrightarrow>
      StatusClientVPNRoute nf FindClientVPNRouteByID i = Return (None, ''Unknown'', snd (FindClientVPNRouteByID i)))
  \<and> (snd (FindInstanceByID i) \<noteq> None \<and> \<not> ErrCodeEquals (snd (FindInstanceByID i)) nf \<longrightarrow>
      StatusInstanceIAMInstanceProfile nf InstanceProfileARNToName FindInstanceByID i = Return (None, [], snd (FindInstanceByID i)))
  \<and> (snd (routeFinder i j) \<noteq> None \<and> \<not> NotFound (snd (routeFinder i j)) \<longrightarrow>
      StatusRoute routeFinder i j = Return (None, [], snd (routeFinder i j)))
  \<and> (snd (FindRouteTableByID i) \<noteq> None \<and> \<not> NotFound (snd (FindRouteTableByID i)) \<longrightarrow>
      StatusRouteTable FindRouteTableByID i = Return (None, [], snd (FindRouteTableByID i)))
  \<and> (snd (FindRouteTableAssociationByID i) \<noteq> None \<and> \<not> NotFound (snd (FindRouteTableAssociationByID i)) \<longrightarrow>
      StatusRouteTableAssociationState FindRouteTableAssociationByID i = Return (None, [], snd (FindRouteTableAssociationByID i)))
  \<and> (snd (FindSecurityGroupByID i) \<noteq> None \<and> \<not> NotFound (snd (FindSecurityGroupByID i)) \<longrightarrow>
      StatusSecurityGroup FindSecurityGroupByID i = Return (None, ''Unknown'', snd (FindSecurityGroupByID i)))
  \<and> (snd (FindSubnetByID i) \<noteq> None \<and> \<not> ErrCodeEquals (snd (FindSubnetByID i)) nf \<longrightarrow>
      StatusSubnetMapCustomerOwnedIPOnLaunch nf FindSubnetByID i = Return (None, ''false'', snd (FindSubnetByID i)))
  \<and> (snd (FindSubnetByID i) \<noteq> None \<and> \<not> ErrCodeEquals (snd (FindSubnetByID i)) nf \<longrightarrow>
      StatusSubnetMapPublicIPOnLaunch nf FindSubnetByID i = Return (None, ''false'', snd (FindSubnetByID i)))
  \<and> (snd (FindTransitGatewayPrefixListReference i j) \<noteq> None \<longrightarrow>
      StatusTransitGatewayPrefixListReferenceState FindTransitGatewayPrefixListReference i j = Return (None, [], snd (FindTransitGatewayPrefixListReference i j)))
  \<and> (snd (FindTransitGatewayRouteTablePropagation i j) \<noteq> None \<longrightarrow>
      StatusTransitGatewayRouteTablePropagationState FindTransitGatewayRouteTablePropagation i j = Return (None, [], snd (FindTransitGatewayRouteTablePropagation i j)))
  \<and> (snd (FindVPCAttribute i j) \<noteq> None \<and> \<not> ErrCodeEquals (snd (FindVPCAttribute i j)) nf \<longrightarrow>
      StatusVPCAttribute nf FindVPCAttribute i j = Return (None, [], snd (FindVPCAttribute i j)))
  \<and> (snd (FindVPCPeeringConnectionByID i) \<noteq> None \<and> \<not> ErrCodeEquals (snd (FindVPCPeeringConnectionByID i)) nf \<longrightarrow>
      StatusVPCPeeringConnection nf FindVPCPeeringConnectionByID i = Return (None, ''Unknown'', snd (FindVPCPeeringConnectionByID i)))
  \<and> (snd (FindVPNGatewayVPCAttachment i j) \<noteq> None \<and> \<not> ErrCodeEquals (snd (FindVPNGatewayVPCAttachment i j)) nf \<longrightarrow>
      StatusVPNGatewayVPCAttachmentState nf FindVPNGatewayVPCAttachment i j = Return (None, ''Unknown'', snd (FindVPNGatewayVPCAttachment i j)))
  \<and> (snd (FindHostByID i) \<noteq> None \<and> \<not> NotFound (snd (FindHostByID i)) \<longrightarrow>
      StatusHostState FindHostByID i = Return (None, [], snd (FindHostByID i)))
  \<and> (snd (FindManagedPrefixListByID i) \<noteq> None \<and> \<not> NotFound (snd (FindManagedPrefixListByID i)) \<longrightarrow>
      StatusManagedPrefixListState FindManagedPrefixListByID i = Return (None, [], snd (FindManagedPrefixListByID i)))
  \<and> (snd (FindVPCEndpointByID i) \<noteq> None \<and> \<not> NotFound (snd (FindVPCEndpointByID i)) \<longrightarrow>
      StatusVPCEndpointState FindVPCEndpointByID i = Return (None, [], snd (FindVPCEndpointByID i)))
  \<and> (FindVPCEndpointRouteTableAssociationExists i j \<noteq> None \<and> \<not> NotFound (FindVPCEndpointRouteTableAssociationExists i j) \<longrightarrow>
      StatusVPCEndpointRouteTableAssociation FindVPCEndpointRouteTableAssociationExists i j = Return (None, [], FindVPCEndpointRouteTableAssociationExists i j))
  \<and> (snd (DescribeImportSnapshotTasks [i]) \<noteq> None \<longrightarrow>
      StatusEBSSnapshotImport deleting DescribeImportSnapshotTasks i = Return (None, [], snd (DescribeImportSnapshotTasks [i])))
  \<and> (snd (FindStateMachineByARN i) \<noteq> None \<and> \<not> NotFound (snd (FindStateMachineByARN i)) \<longrightarrow>
      statusStateMachine FindStateMachineByARN i = Return (None, [], snd (FindStateMachineByARN i)))"
  by (auto simp: reducer_defs status_defs split: prod.splits)

text \<open>The theorem at an internal error of the API.\<close>

theorem status_other_error_witness:
  "StatusCarrierGatewayState ''X.NotFound'' (\<lambda>a. (None, Some (AWSError ''InternalError'' ''boom''))) ''id-1''
     = Return (None, ''Unknown'', Some (AWSError ''InternalError'' ''boom''))
  \<and> StatusLocalGatewayRouteTableVPCAssociationState (\<lambda>a. (None, Some (AWSError ''InternalError'' ''boom''))) ''id-1''
     = Return (None, [], Some (AWSError ''InternalError'' ''boom''))
  \<and> StatusClientVPNEndpoint ''X.NotFound'' (\<lambda>a. (None, Some (AWSError ''InternalError'' ''boom''))) ''id-1''
     = Return (None, ''Unknown'', Some (AWSError ''InternalError'' ''boom''))
  \<and> StatusClientVPNAuthorizationRule ''X.NotFound'' (\<lambda>a. (None, Some (AWSError ''InternalError'' ''boom''))) ''id-1''
     = Return (None, ''Unknown'', Some (AWSError ''InternalError'' ''boom''))
  \<and> StatusClientVPNNetworkAssociation ''X.NotFound'' ''Y.NotFound'' (\<lambda>a b. (None, Some (AWSError ''InternalError'' ''boom''))) ''id-1'' ''id-2''
     = Return (None, ''Unknown'', Some (AWSError ''InternalError'' ''boom''))
  \<and> StatusClientVPNRoute ''X.NotFound'' (\<lambda>a. (None, Some (AWSError ''InternalError'' ''boom''))) ''id-1''
     = Return (None, ''Unknown'', Some (AWSError ''InternalError'' ''boom''))
  \<and> StatusInstanceIAMInstanceProfile ''X.NotFound'' (\<lambda>arn. (arn, None)) (\<lambda>a. (None, Some (AWSError ''InternalError'' ''boom''))) ''id-1''
     = Return (None, [], Some (AWSError ''InternalError'' ''boom''))
  \<and> StatusRoute (\<lambda>a b. (None :: unit option, Some (AWSError ''InternalError'' ''boom''))) ''id-1'' ''id-2''
     = Return (None, [], Some (AWSError ''InternalError'' ''boom''))
  \<and> StatusRouteTable (\<lambda>a. (None :: unit option, Some (AWSError ''InternalError'' ''boom''))) ''id-1''
     = Return (None, [], Some (AWSError ''InternalError'' ''boom''))
  \<and> StatusRouteTableAssociationState (\<lambda>a. (None, Some (AWSError ''InternalError'' ''boom''))) ''id-1''
     = Return (None, [], Some (AWSError ''InternalError'' ''boom''))
  \<and> StatusSecurityGroup (\<lambda>a. (None :: unit option, Some (AWSError ''InternalError'' ''boom''))) ''id-1''
     = Return (None, ''Unknown'', Some (AWSError ''InternalError'' ''boom''))
  \<and> StatusSubnetMapCustomerOwnedIPOnLaunch ''X.NotFound'' (\<lambda>a. (None, Some (AWSError ''InternalError'' ''boom''))) ''id-1''
     = Return (None, ''false'', Some (AWSError ''InternalError'' ''boom''))
  \<and> StatusSubnetMapPublicIPOnLaunch ''X.NotFound'' (\<lambda>a. (None, Some (AWSError ''InternalError'' ''boom''))) ''id-1''
     = Return (None, ''false'', Some (AWSError ''InternalError'' ''boom''))
  \<and> StatusTransitGatewayPrefixListReferenceState (\<lambda>a b. (None, Some (AWSError ''InternalError'' ''boom''))) ''id-1'' ''id-2''
     = Return (None, [], Some (AWSError ''InternalError'' ''boom''))
  \<and> StatusTransitGatewayRouteTablePropagationState (\<lambda>a b. (None, Some (AWSError ''InternalError'' ''boom''))) ''id-1'' ''id-2''
     = Return (None, [], Some (AWSError ''InternalError'' ''boom''))
  \<and> StatusVPCAttribute ''X.NotFound'' (\<lambda>a b. (None, Some (AWSError ''InternalError'' ''boom''))) ''id-1'' ''id-2''
     = Return (None, [], Some (AWSError ''InternalError'' ''boom''))
  \<and> StatusVPCPeeringConnection ''X.NotFound'' (\<lambda>a. (None, Some (AWSError ''InternalError'' ''boom''))) ''id-1''
     = Return (None, ''Unknown'', Some (AWSError ''InternalError'' ''boom''))
  \<and> StatusVPNGatewayVPCAttachmentState ''X.NotFound'' (\<lambda>a b. (None, Some (AWSError ''InternalError'' ''boom''))) ''id-1'' ''id-2''
     = Return (None, ''Unknown'', Some (AWSError ''InternalError'' ''boom''))
  \<and> StatusHostState (\<lambda>a. (None, Some (AWSError ''InternalError'' ''boom''))) ''id-1''
     = Return (None, [], Some (AWSError ''InternalError'' ''boom''))
  \<and> StatusManagedPrefixListState (\<lambda>a. (None, Some (AWSError ''InternalError'' ''boom''))) ''id-1''
     = Return (None, [], Some (AWSError ''InternalError'' ''boom''))
  \<and> StatusVPCEndpointState (\<lambda>a. (None, Some (AWSError ''InternalError'' ''boom''))) ''id-1''
     = Return (None, [], Some (AWSError ''InternalError'' ''boom''))
  \<and> StatusVPCEndpointRouteTableAssociation (\<lambda>a b. Some (AWSError ''InternalError'' ''boom'')) ''id-1'' ''id-2''
     = Return (None, [], Some (AWSError ''InternalError'' ''boom''))
  \<and> StatusEBSSnapshotImport ''deleting'' (\<lambda>a. (None, Some (AWSError ''InternalError'' ''boom''))) ''id-1''
     = Return (None, [], Some (AWSError ''InternalError'' ''boom''))
  \<and> statusStateMachine (\<lambda>a. (None, Some (AWSError ''InternalError'' ''boom''))) ''id-1''
     = Return (None, [], Some (AWSError ''InternalError'' ''boom''))"
  using status_other_error
    [where nf = "''X.NotFound''"
       and nf' = "''Y.NotFound''"
       and i = "''id-1''"
       and j = "''id-2''"
       and deleting = "''deleting''"
       and InstanceProfileARNToName = "(\<lambda>arn. (arn, None))"
       and FindCarrierGatewayByID = "(\<lambda>a. (None, Some (AWSError ''InternalError'' ''boom'')))"
       and DescribeLocalGatewayRouteTableVpcAssociations = "(\<lambda>a. (None, Some (AWSError ''InternalError'' ''boom'')))"
       and DescribeClientVpnEndpoints = "(\<lambda>a. (None, Some (AWSError ''InternalError'' ''boom'')))"
       and FindClientVPNAuthorizationRuleByID = "(\<lambda>a. (None, Some (AWSError ''InternalError'' ''boom'')))"
       and DescribeClientVpnTargetNetworks = "(\<lambda>a b. (None, Some (AWSError ''InternalError'' ''boom'')))"
       and FindClientVPNRouteByID = "(\<lambda>a. (None, Some (AWSError ''InternalError'' ''boom'')))"
       and FindInstanceByID = "(\<lambda>a. (None, Some (AWSError ''InternalError'' ''boom'')))"
       and routeFinder = "(\<lambda>a b. (None :: unit option, Some (AWSError ''InternalError'' ''boom'')))"
       and FindRouteTableByID = "(\<lambda>a. (None :: unit option, Some (AWSError ''InternalError'' ''boom'')))"
       and FindRouteTableAssociationByID = "(\<lambda>a. (None, Some (AWSError ''InternalError'' ''boom'')))"
       and FindSecurityGroupByID = "(\<lambda>a. (None :: unit option, Some (AWSError ''InternalError'' ''boom'')))"
       and FindSubnetByID = "(\<lambda>a. (None, Some (AWSError ''InternalError'' ''boom'')))"
       and FindTransitGatewayPrefixListReference = "(\<lambda>a b. (None, Some (AWSError ''InternalError'' ''boom'')))"
       and FindTransitGatewayRouteTablePropagation = "(\<lambda>a b. (None, Some (AWSError ''InternalError'' ''boom'')))"
       and FindVPCAttribute = "(\<lambda>a b. (None, Some (AWSError ''InternalError'' ''boom'')))"
       and FindVPCPeeringConnectionByID = "(\<lambda>a. (None, Some (AWSError ''InternalError'' ''boom'')))"
       and FindVPNGatewayVPCAttachment = "(\<lambda>a b. (None, Some (AWSError ''InternalError'' ''boom'')))"
       and FindHostByID = "(\<lambda>a. (None, Some (AWSError ''InternalError'' ''boom'')))"
       and FindManagedPrefixListByID = "(\<lambda>a. (None, Some (AWSError ''InternalError'' ''boom'')))"
       and FindVPCEndpointByID = "(\<lambda>a. (None, Some (AWSError ''InternalError'' ''boom'')))"
       and FindVPCEndpointRouteTableAssociationExists = "(\<lambda>a b. Some (AWSError ''InternalError'' ''boom''))"
       and DescribeImportSnapshotTasks = "(\<lambda>a. (None, Some (AWSError ''InternalError'' ''boom'')))"
       and FindStateMachineByARN = "(\<lambda>a. (None, Some (AWSError ''InternalError'' ''boom'')))"]
  by (simp add: ErrCodeEquals_AWSError NotFound_AWSError)

text \<open>
  C2 as stated fails: on an internal error, \<open>StatusSubnetMapCustomerOwnedIPOnLaunch\<close>
  returns the status \<open>false\<close>, not the status \<open>Unknown\<close>.
\<close>

theorem StatusSubnetMapCustomerOwnedIPOnLaunch_error_status_false:
  "\<not> ErrCodeEquals (Some (AWSError ''InternalError'' ''boom'')) ''InvalidSubnetID.NotFound''
   \<and> StatusSubnetMapCustomerOwnedIPOnLaunch ''InvalidSubnetID.NotFound''
         (\<lambda>a. (None, Some (AWSError ''InternalError'' ''boom''))) ''subnet-1''
       = Return (None, ''false'', Some (AWSError ''InternalError'' ''boom''))
   \<and> StatusSubnetMapCustomerOwnedIPOnLaunch ''InvalidSubnetID.NotFound''
         (\<lambda>a. (None, Some (AWSError ''InternalError'' ''boom''))) ''subnet-1''
       \<noteq> Return (None, ''Unknown'', Some (AWSError ''InternalError'' ''boom''))"
  by (simp add: StatusSubnetMapCustomerOwnedIPOnLaunch_def ErrCodeEquals_def)

lemma StatusCarrierGatewayState_NotFound_payload:
  "StatusCarrierGatewayState nf FindCarrierGatewayByID i = Return (pa, ''NotFound'', ea) \<Longrightarrow>
     pa = None \<or> (\<exists>x. pa = Some (Some x) \<and> cg_State x = Some ''NotFound'')"
  by (auto simp: StatusCarrierGatewayState_def carrierGatewayStateNotFound_def carrierGatewayStateUnknown_def Let_def StringValue_def
      split: prod.splits option.splits if_splits)

lemma StatusClientVPNEndpoint_NotFound_payload:
  "StatusClientVPNEndpoint nf DescribeClientVpnEndpoints i = Return (pb, ''NotFound'', eb) \<Longrightarrow>
     pb = None \<or> (\<exists>x s. pb = Some (Some x) \<and> cve_Status x = Some s \<and> cves_Code s = Some ''NotFound'')"
  by (auto simp: StatusClientVPNEndpoint_def ClientVPNEndpointStatusNotFound_def ClientVPNEndpointStatusUnknown_def StringValue_def
      split: prod.splits option.splits list.splits if_splits)

lemma StatusClientVPNAuthorizationRule_NotFound_payload:
  "StatusClientVPNAuthorizationRule nf FindClientVPNAuthorizationRuleByID i = Return (pc, ''NotFound'', ec) \<Longrightarrow>
     pc = None \<or> (\<exists>x s. pc = Some (Some x) \<and> ar_Status x = Some s \<and> cvars_Code s = Some ''NotFound'')"
  by (auto simp: StatusClientVPNAuthorizationRule_def ClientVPNAuthorizationRuleStatusNotFound_def ClientVPNAuthorizationRuleStatusUnknown_def StringValue_def
      split: prod.splits option.splits list.splits if_splits)

lemma StatusClientVPNNetworkAssociation_NotFound_payload:
  "StatusClientVPNNetworkAssociation nf nf' DescribeClientVpnTargetNetworks i j = Return (pd, ''NotFound'', ed) \<Longrightarrow>
     pd = None \<or> (\<exists>x s. pd = Some (Some x) \<and> tn_Status x = Some s \<and> as_Code s = Some ''NotFound'')"
  by (auto simp: StatusClientVPNNetworkAssociation_def ClientVPNNetworkAssociationStatusNotFound_def ClientVPNNetworkAssociationStatusUnknown_def StringValue_def
      split: prod.splits option.splits list.splits if_splits)

lemma StatusClientVPNRoute_NotFound_payload:
  "StatusClientVPNRoute nf FindClientVPNRouteByID i = Return (pe, ''NotFound'', ee) \<Longrightarrow>
     pe = None \<or> (\<exists>x s. pe = Some (Some x) \<and> cvr_Status x = Some s \<and> cvrs_Code s = Some ''NotFound'')"
  by (auto simp: StatusClientVPNRoute_def ClientVPNRouteStatusNotFound_def ClientVPNRouteStatusUnknown_def StringValue_def
      split: prod.splits option.splits list.splits if_splits)

lemma StatusSecurityGroup_NotFound_payload:
  "StatusSecurityGroup FindSecurityGroupByID i = Return (pf, ''NotFound'', ef) \<Longrightarrow>
     pf = None"
  by (auto simp: StatusSecurityGroup_def SecurityGroupStatusNotFound_def SecurityGroupStatusUnknown_def SecurityGroupStatusCreated_def
      split: prod.splits if_splits)

lemma StatusVPCPeeringConnection_NotFound_payload:
  "StatusVPCPeeringConnection nf FindVPCPeeringConnectionByID i = Return (pg, ''NotFound'', eg) \<Longrightarrow>
     pg = None \<or> (\<exists>x s. pg = Some (Some x) \<and> vpc_Status x = Some s \<and> vpcsr_Code s = Some ''NotFound'')"
  by (auto simp: StatusVPCPeeringConnection_def vpcPeeringConnectionStatusNotFound_def vpcPeeringConnectionStatusUnknown_def StringValue_def Let_def
      split: prod.splits option.splits if_splits)

lemma StatusVPNGatewayVPCAttachmentState_NotFound_payload:
  "StatusVPNGatewayVPCAttachmentState nf FindVPNGatewayVPCAttachment i j = Return (ph, ''NotFound'', eh) \<Longrightarrow>
     ph = None \<or> (\<exists>x. ph = Some (Some x) \<and> va_State x = Some ''NotFound'')"
  by (auto simp: StatusVPNGatewayVPCAttachmentState_def attachmentStateNotFound_def attachmentStateUnknown_def StringValue_def
      split: prod.splits option.splits if_splits)

lemma StatusEBSSnapshotImport_NotFound_payload:
  "StatusEBSSnapshotImport deleting DescribeImportSnapshotTasks i = Return (pi, ''NotFound'', ei) \<Longrightarrow>
     pi = None \<or> (\<exists>x. pi = Some (Some x) \<and> std_Status x = Some ''NotFound'')"
  by (auto simp: StatusEBSSnapshotImport_def snapshotImportNotFound_def StringValue_def Let_def
      split: prod.splits option.splits list.splits if_splits)

text \<open>
  C4, as the code has it, for the nine reducers that declare a NotFound status. Whenever
  one of them returns the status \<open>NotFound\<close>, the payload is nil, unless the describe
  response itself carries the literal lifecycle or status code \<open>NotFound\<close>: a code of the
  response is returned as the status together with the resource. \<open>StatusSecurityGroup\<close>
  passes no code of the response on, and its payload is nil in every such case.
\<close>

theorem status_NotFound_payload:
  "(StatusCarrierGatewayState nf FindCarrierGatewayByID i
        = Return (pa, ''NotFound'', ea) \<longrightarrow>
      pa = None \<or> (\<exists>x. pa = Some (Some x) \<and> cg_State x = Some ''NotFound''))
  \<and> (StatusClientVPNEndpoint nf DescribeClientVpnEndpoints i
        = Return (pb, ''NotFound'', eb) \<longrightarrow>
      pb = None \<or> (\<exists>x s. pb = Some (Some x) \<and> cve_Status x = Some s \<and> cves_Code s = Some ''NotFound''))
  \<and> (StatusClientVPNAuthorizationRule nf FindClientVPNAuthorizationRuleByID i
        = Return (pc, ''NotFound'', ec) \<longrightarrow>
      pc = None \<or> (\<exists>x s. pc = Some (Some x) \<and> ar_Status x = Some s \<and> cvars_Code s = Some ''NotFound''))
  \<and> (StatusClientVPNNetworkAssociation nf nf' DescribeClientVpnTargetNetworks i j
        = Return (pd, ''NotFound'', ed) \<longrightarrow>
      pd = None \<or> (\<exists>x s. pd = Some (Some x) \<and> tn_Status x = Some s \<and> as_Code s = Some ''NotFound''))
  \<and> (StatusClientVPNRoute nf FindClientVPNRouteByID i
        = Return (pe, ''NotFound'', ee) \<longrightarrow>
      pe = None \<or> (\<exists>x s. pe = Some (Some x) \<and> cvr_Status x = Some s \<and> cvrs_Code s = Some ''NotFound''))
  \<and> (StatusSecurityGroup FindSecurityGroupByID i
        = Return (pf, ''NotFound'', ef) \<longrightarrow>
      pf = None)
  \<and> (StatusVPCPeeringConnection nf FindVPCPeeringConnectionByID i
        = Return (pg, ''NotFound'', eg) \<longrightarrow>
      pg = None \<or> (\<exists>x s. pg = Some (Some x) \<and> vpc_Status x = Some s \<and> vpcsr_Code s = Some ''NotFound''))
  \<and> (StatusVPNGatewayVPCAttachmentState nf FindVPNGatewayVPCAttachment i j
        = Return (ph, ''NotFound'', eh) \<longrightarrow>
      ph = None \<or> (\<exists>x. ph = Some (Some x) \<and> va_State x = Some ''NotFound''))
  \<and> (StatusEBSSnapshotImport deleting DescribeImportSnapshotTasks i
        = Return (pi, ''NotFound'', ei) \<longrightarrow>
      pi = None \<or> (\<exists>x. pi = Some (Some x) \<and> std_Status x = Some ''NotFound''))"
  by (intro conjI impI)
     (erule StatusCarrierGatewayState_NotFound_payload
        StatusClientVPNEndpoint_NotFound_payload
        StatusClientVPNAuthorizationRule_NotFound_payload
        StatusClientVPNNetworkAssociation_NotFound_payload
        StatusClientVPNRoute_NotFound_payload
        StatusSecurityGroup_NotFound_payload
        StatusVPCPeeringConnection_NotFound_payload
        StatusVPNGatewayVPCAttachmentState_NotFound_payload
        StatusEBSSnapshotImport_NotFound_payload)+

text \<open>
  The theorem at describe calls that return nothing (for the security group, a
  \<open>NotFoundError\<close>): each reducer returns the status \<open>NotFound\<close>, with a nil payload.
\<close>

theorem status_NotFound_payload_witness:
  "StatusCarrierGatewayState ''X.NotFound'' (\<lambda>a. (None, None)) ''id-1''
     = Return (None, ''NotFound'', None)
  \<and> StatusClientVPNEndpoint ''X.NotFound'' (\<lambda>a. (None, None)) ''id-1''
     = Return (None, ''NotFound'', None)
  \<and> StatusClientVPNAuthorizationRule ''X.NotFound'' (\<lambda>a. (None, None)) ''id-1''
     = Return (None, ''NotFound'', None)
  \<and> StatusClientVPNNetworkAssociation ''X.NotFound'' ''Y.NotFound'' (\<lambda>a b. (None, None)) ''id-1'' ''id-2''
     = Return (None, ''NotFound'', None)
  \<and> StatusClientVPNRoute ''X.NotFound'' (\<lambda>a. (None, None)) ''id-1''
     = Return (None, ''NotFound'', None)
  \<and> StatusSecurityGroup (\<lambda>a. (None :: unit option, Some (NotFoundError ''empty result''))) ''id-1''
     = Return (None, ''NotFound'', None)
  \<and> StatusVPCPeeringConnection ''X.NotFound'' (\<lambda>a. (None, None)) ''id-1''
     = Return (None, ''NotFound'', None)
  \<and> StatusVPNGatewayVPCAttachmentState ''X.NotFound'' (\<lambda>a b. (None, None)) ''id-1'' ''id-2''
     = Return (None, ''NotFound'', None)
  \<and> StatusEBSSnapshotImport ''deleting'' (\<lambda>a. (None, None)) ''id-1''
     = Return (None, ''NotFound'', None)"
  using status_NotFound_payload
    [where nf = "''X.NotFound''"
       and nf' = "''Y.NotFound''"
       and i = "''id-1''"
       and j = "''id-2''"
       and deleting = "''deleting''"
       and FindCarrierGatewayByID = "(\<lambda>a. (None, None))"
       and DescribeClientVpnEndpoints = "(\<lambda>a. (None, None))"
       and FindClientVPNAuthorizationRuleByID = "(\<lambda>a. (None, None))"
       and DescribeClientVpnTargetNetworks = "(\<lambda>a b. (None, None))"
       and FindClientVPNRouteByID = "(\<lambda>a. (None, None))"
       and FindSecurityGroupByID = "(\<lambda>a. (None :: unit option, Some (NotFoundError ''empty result'')))"
       and FindVPCPeeringConnectionByID = "(\<lambda>a. (None, None))"
       and FindVPNGatewayVPCAttachment = "(\<lambda>a b. (None, None))"
       and DescribeImportSnapshotTasks = "(\<lambda>a. (None, None))"
       and pa = None
       and ea = None
       and pb = None
       and eb = None
       and pc = None
       and ec = None
       and pd = None
       and ed = None
       and pe = None
       and ee = None
       and pf = None
       and ef = None
       and pg = None
       and eg = None
       and ph = None
       and eh = None
       and pi = None
       and ei = None]
  by (simp add: reducer_defs status_defs ErrCodeEquals_def NotFound_def)

text \<open>
  C4 as stated fails: for a Client VPN endpoint whose status code in the describe response
  is the string \<open>NotFound\<close>, \<open>StatusClientVPNEndpoint\<close> returns the status \<open>NotFound\<close> with the
  endpoint as payload.
\<close>

theorem StatusClientVPNEndpoint_NotFound_code_with_payload:
  "StatusClientVPNEndpoint ''InvalidClientVpnEndpointId.NotFound''
     (\<lambda>ids. (Some [Some (ClientVpnEndpoint (Some (ClientVpnEndpointStatus (Some ''NotFound''))))],
             None))
     ''cvpn-endpoint-1''
   = Return (Some (Some (ClientVpnEndpoint (Some (ClientVpnEndpointStatus (Some ''NotFound''))))),
             ''NotFound'', None)"
  by (simp add: StatusClientVPNEndpoint_def ErrCodeEquals_def StringValue_def)


section \<open>Properties of the sweeper\<close>

lemma firstMatch_None:
  "firstMatch err entries = None \<longleftrightarrow> (\<forall>entry \<in> set entries. \<not> matchesEntry err entry)"
  by (induction entries) auto

lemma firstMatch_find: "firstMatch err entries = find (matchesEntry err) entries"
  by (induction entries) auto

lemma SkipSweepError_skipByTable: "SkipSweepError err = skipByTable err"
  by (simp add: SkipSweepError_def skipByTable_def skipTable_def matchesEntry_def)

text \<open>
  C7. \<open>SkipSweepError\<close> is the evaluation of the fixed table \<open>skipTable\<close> in its declared
  order: it returns true exactly when the table's first matching entry exists, which is
  exactly when some entry matches; an error that matches no entry is not skipped. The
  first match is the entry at the least index that matches, so that for an error matching
  two entries the earlier one is the one that decides.
\<close>

theorem SkipSweepError_first_match:
  "SkipSweepError err = (firstMatch err skipTable \<noteq> None)
   \<and> (SkipSweepError err \<longleftrightarrow> (\<exists>entry \<in> set skipTable. matchesEntry err entry))
   \<and> (firstMatch err skipTable = Some entry \<longleftrightarrow>
        (\<exists>k < length skipTable. skipTable ! k = entry \<and> matchesEntry err entry
            \<and> (\<forall>j < k. \<not> matchesEntry err (skipTable ! j))))"
proof -
  have a: "SkipSweepError err = (firstMatch err skipTable \<noteq> None)"
    by (simp add: SkipSweepError_skipByTable skipByTable_def split: option.splits)
  have b: "SkipSweepError err \<longleftrightarrow> (\<exists>entry \<in> set skipTable. matchesEntry err entry)"
    unfolding a using firstMatch_None [of err skipTable] by auto
  have c: "firstMatch err skipTable = Some entry \<longleftrightarrow>
        (\<exists>k < length skipTable. skipTable ! k = entry \<and> matchesEntry err entry
            \<and> (\<forall>j < k. \<not> matchesEntry err (skipTable ! j)))"
    unfolding firstMatch_find find_Some_iff by blast
  from a b c show ?thesis by blast
qed

lemma firstMatch_two_entries:
  "firstMatch (Some (AWSError ''InvalidAction'' ''Unavailable Operation is not valid here''))
     skipTable
   = Some (''InvalidAction'', ''is not valid'')"
  by code_simp

lemma matchesEntry_later_entry:
  "matchesEntry (Some (AWSError ''InvalidAction'' ''Unavailable Operation is not valid here''))
     (''InvalidAction'', ''Unavailable Operation'')"
  by code_simp

lemma firstMatch_throttling: "firstMatch (Some (AWSError ''Throttling'' ''Rate exceeded'')) skipTable = None"
  by code_simp

lemma firstMatch_nil: "firstMatch None skipTable = None"
  by code_simp

text \<open>
  The theorem at an error that matches the seventh and the eighth entry (the seventh one
  is the first match), at a throttling error, which matches none, and at the nil error.
\<close>

theorem SkipSweepError_first_match_witness:
  "SkipSweepError (Some (AWSError ''InvalidAction'' ''Unavailable Operation is not valid here''))
   \<and> matchesEntry (Some (AWSError ''InvalidAction'' ''Unavailable Operation is not valid here''))
        (''InvalidAction'', ''Unavailable Operation'')
   \<and> firstMatch (Some (AWSError ''InvalidAction'' ''Unavailable Operation is not valid here''))
        skipTable
       = Some (''InvalidAction'', ''is not valid'')
   \<and> \<not> SkipSweepError (Some (AWSError ''Throttling'' ''Rate exceeded''))
   \<and> \<not> SkipSweepError None"
  using SkipSweepError_first_match
          [of "Some (AWSError ''InvalidAction'' ''Unavailable Operation is not valid here'')",
           THEN conjunct1]
        SkipSweepError_first_match
          [of "Some (AWSError ''Throttling'' ''Rate exceeded'')", THEN conjunct1]
        SkipSweepError_first_match [of None, THEN conjunct1]
  by (simp add: firstMatch_two_entries matchesEntry_later_entry firstMatch_throttling
        firstMatch_nil)

text \<open>
  C5, as the code has it. The test for throttling is the literal, case-sensitive substring
  \<open>Throttling\<close> of the error's text. In the retry loop of one sweep resource, a delete
  error whose text contains that substring is classified retryable, leaves the driver
  pending and lets the loop go on with the polls that remain; every other delete error,
  a rate-limit error without that substring included, is classified not retryable and ends
  the loop at once as a failure with that error.
\<close>

theorem sweep_throttling_retried:
  assumes "DeleteResource (sr_resource sweepResource) (sr_d sweepResource) (sr_meta sweepResource) w
             = (Return (Some err), w')"
  shows "(Contains (Error err) ''Throttling'' \<longrightarrow>
            sweepRetryFunc sweepResource w = (Return (Some (RetryableError err)), w')
          \<and> pollOnce (sweepRetryFunc sweepResource) w = (Return StatePending, w')
          \<and> RetryDriver (Suc polls) (sweepRetryFunc sweepResource) w
              = RetryDriver polls (sweepRetryFunc sweepResource) w')
       \<and> (\<not> Contains (Error err) ''Throttling'' \<longrightarrow>
            sweepRetryFunc sweepResource w = (Return (Some (NonRetryableError err)), w')
          \<and> RetryDriver (Suc polls) (sweepRetryFunc sweepResource) w = (Return (StateFailure err), w')
          \<and> RetryConfigContext (Suc polls) (sweepRetryFunc sweepResource) w = (Return (Some err), w'))"
  using assms
  by (simp add: sweepRetryFunc_def pollOnce_def RetryableError_def NonRetryableError_def
        RetryConfigContext_def)

lemma sweepRetryFunc_deleteOnce:
  "sweepRetryFunc sr w =
     (case deleteOnce sr w of
        (Panic, w') \<Rightarrow> (Panic, w')
      | (Return None, w') \<Rightarrow> (Return None, w')
      | (Return (Some err), w') \<Rightarrow>
          (Return (Some (RetryError err (Contains (Error err) ''Throttling''))), w'))"
  by (simp add: sweepRetryFunc_def deleteOnce_def RetryableError_def NonRetryableError_def
      split: prod.splits exec.splits option.splits)

lemma throttledE:
  "throttled r \<Longrightarrow> \<exists>e. r = Return (Some e) \<and> Contains (Error e) ''Throttling''"
  by (cases r rule: throttled.cases) auto

lemma pollOnce_throttled:
  assumes "throttled (fst (deleteOnce sr w))"
  shows "pollOnce (sweepRetryFunc sr) w = (Return StatePending, snd (deleteOnce sr w))"
proof -
  from throttledE [OF assms] obtain e where
    e: "fst (deleteOnce sr w) = Return (Some e)" and t: "Contains (Error e) ''Throttling''"
    by blast
  then obtain w' where "deleteOnce sr w = (Return (Some e), w')"
    by (cases "deleteOnce sr w") auto
  then show ?thesis
    using t by (simp add: pollOnce_def sweepRetryFunc_deleteOnce)
qed

lemma pollOnce_not_throttled:
  assumes "fst (deleteOnce sr w) = Return err" and "\<not> throttled (Return err)"
  shows "pollOnce (sweepRetryFunc sr) w
       = (Return (case err of None \<Rightarrow> StateTarget | Some e \<Rightarrow> StateFailure e), snd (deleteOnce sr w))"
proof -
  from assms(1) obtain w' where "deleteOnce sr w = (Return err, w')"
    by (cases "deleteOnce sr w") auto
  then show ?thesis
    using assms(2) by (cases err) (simp_all add: pollOnce_def sweepRetryFunc_deleteOnce)
qed


lemma RetryDriver_first_not_throttled:
  "k < polls \<Longrightarrow> (\<forall>j < k. throttled (fst (deleteOnce sr (afterDeletes j sr w)))) \<Longrightarrow>
   fst (deleteOnce sr (afterDeletes k sr w)) = Return err \<Longrightarrow> \<not> throttled (Return err) \<Longrightarrow>
     RetryDriver polls (sweepRetryFunc sr) w
       = (Return (case err of None \<Rightarrow> StateTarget | Some e \<Rightarrow> StateFailure e),
          afterDeletes (Suc k) sr w)"
proof (induction k arbitrary: w polls)
  case 0
  then obtain n where n: "polls = Suc n" by (cases polls) auto
  from 0 have "fst (deleteOnce sr w) = Return err" by simp
  from pollOnce_not_throttled [OF this "0.prems"(4)] show ?case
    by (cases err) (simp_all add: n)
next
  case (Suc k)
  then obtain n where n: "polls = Suc n" and kn: "k < n" by (cases polls) auto
  from Suc.prems(2) have first: "throttled (fst (deleteOnce sr w))"
    by (metis afterDeletes.simps(1) zero_less_Suc)
  have rest:
    "\<forall>j < k. throttled (fst (deleteOnce sr (afterDeletes j sr (snd (deleteOnce sr w)))))"
  proof (intro allI impI)
    fix j assume "j < k"
    then have "Suc j < Suc k" by simp
    with Suc.prems(2) have "throttled (fst (deleteOnce sr (afterDeletes (Suc j) sr w)))" by blast
    then show "throttled (fst (deleteOnce sr (afterDeletes j sr (snd (deleteOnce sr w)))))" by simp
  qed
  from Suc.prems(3) have last:
    "fst (deleteOnce sr (afterDeletes k sr (snd (deleteOnce sr w)))) = Return err"
    by simp
  have "RetryDriver polls (sweepRetryFunc sr) w
          = RetryDriver n (sweepRetryFunc sr) (snd (deleteOnce sr w))"
    by (simp add: n pollOnce_throttled [OF first])
  also have "\<dots> = (Return (case err of None \<Rightarrow> StateTarget | Some e \<Rightarrow> StateFailure e),
          afterDeletes (Suc k) sr (snd (deleteOnce sr w)))"
    by (rule Suc.IH [OF kn rest last Suc.prems(4)])
  finally show ?case by simp
qed




lemma RetryConfigContext_first_not_throttled:
  assumes "k < polls" and "\<forall>j < k. throttled (fst (deleteOnce sr (afterDeletes j sr w)))"
    and "fst (deleteOnce sr (afterDeletes k sr w)) = Return err" and "\<not> throttled (Return err)"
  shows "RetryConfigContext polls (sweepRetryFunc sr) w = (Return err, afterDeletes (Suc k) sr w)"
  unfolding RetryConfigContext_def RetryDriver_first_not_throttled [OF assms]
  by (cases err) simp_all




lemma Contains_throttlingError: "Contains (Error throttlingError) ''Throttling''"
  unfolding throttlingError_def by code_simp

lemma Contains_accessDeniedError: "\<not> Contains (Error accessDeniedError) ''Throttling''"
  unfolding accessDeniedError_def by code_simp

lemma TimedOut_examples: "\<not> TimedOut None" "\<not> TimedOut (Some accessDeniedError)"
  by (simp_all add: TimedOut_def accessDeniedError_def)

lemma deleteOnce_loggedResource:
  "deleteOnce (loggedResource answers d) w = (Return (answers d (count_list w d)), w @ [d])"
  by (simp add: deleteOnce_def DeleteResource_def loggedResource_def NewSweepResource_def
        loggedDelete_def)



text \<open>The theorem at a throttled and at a denied delete.\<close>

theorem sweep_throttling_retried_witness:
  "sweepRetryFunc (loggedResource exampleAnswers ''throttled'') []
     = (Return (Some (RetryableError throttlingError)), [''throttled''])
   \<and> RetryDriver (Suc 1) (sweepRetryFunc (loggedResource exampleAnswers ''throttled'')) []
       = RetryDriver 1 (sweepRetryFunc (loggedResource exampleAnswers ''throttled'')) [''throttled'']
   \<and> sweepRetryFunc (loggedResource exampleAnswers ''denied'') []
       = (Return (Some (NonRetryableError accessDeniedError)), [''denied''])
   \<and> RetryConfigContext (Suc 1) (sweepRetryFunc (loggedResource exampleAnswers ''denied'')) []
       = (Return (Some accessDeniedError), [''denied''])"
proof -
  have d1: "DeleteResource (sr_resource (loggedResource exampleAnswers ''throttled''))
              (sr_d (loggedResource exampleAnswers ''throttled''))
              (sr_meta (loggedResource exampleAnswers ''throttled'')) []
            = (Return (Some throttlingError), [''throttled''])"
    by (simp add: DeleteResource_def loggedResource_def NewSweepResource_def loggedDelete_def
          exampleAnswers_def)
  have d2: "DeleteResource (sr_resource (loggedResource exampleAnswers ''denied''))
              (sr_d (loggedResource exampleAnswers ''denied''))
              (sr_meta (loggedResource exampleAnswers ''denied'')) []
            = (Return (Some accessDeniedError), [''denied''])"
    by (simp add: DeleteResource_def loggedResource_def NewSweepResource_def loggedDelete_def
          exampleAnswers_def)
  note a = sweep_throttling_retried [OF d1, of 1, THEN conjunct1, THEN mp, OF Contains_throttlingError]
  note b = sweep_throttling_retried [OF d2, of 1, THEN conjunct2, THEN mp, OF Contains_accessDeniedError]
  from a b show ?thesis by blast
qed

lemma Contains_requestLimitError: "\<not> Contains (Error requestLimitError) ''Throttling''"
  unfolding requestLimitError_def by code_simp

text \<open>
  C5 as stated fails for a rate-limit indication other than the substring \<open>Throttling\<close>:
  the error \<open>RequestLimitExceeded: Request limit exceeded.\<close> is classified not retryable,
  and with five polls allowed the loop ends after one call of the delete, as a failure.
\<close>

theorem sweep_request_limit_not_retried:
  "\<not> Contains (Error requestLimitError) ''Throttling''
   \<and> sweepRetryFunc (loggedResource (\<lambda>d n. Some requestLimitError) ''limited'') []
       = (Return (Some (NonRetryableError requestLimitError)), [''limited''])
   \<and> RetryConfigContext 5 (sweepRetryFunc (loggedResource (\<lambda>d n. Some requestLimitError) ''limited'')) []
       = (Return (Some requestLimitError), [''limited''])"
proof -
  let ?f = "sweepRetryFunc (loggedResource (\<lambda>d n. Some requestLimitError) ''limited'')"
  have s: "?f [] = (Return (Some (NonRetryableError requestLimitError)), [''limited''])"
    by (simp add: sweepRetryFunc_def DeleteResource_def loggedResource_def NewSweepResource_def
          loggedDelete_def Contains_requestLimitError)
  have p: "pollOnce ?f [] = (Return (StateFailure requestLimitError), [''limited''])"
    by (simp add: pollOnce_def s NonRetryableError_def)
  have d: "RetryDriver (Suc 4) ?f [] = (Return (StateFailure requestLimitError), [''limited''])"
    unfolding RetryDriver.simps p by simp
  have five: "(5::nat) = Suc 4" by simp
  have r: "RetryConfigContext 5 ?f [] = (Return (Some requestLimitError), [''limited''])"
    unfolding five RetryConfigContext_def d by simp
  from Contains_requestLimitError s r show ?thesis by blast
qed





lemma sweepEach_Cons:
  "sweepEach polls (r # rs) w =
     (fst (sweepOne polls r w) # fst (sweepEach polls rs (snd (sweepOne polls r w))),
      snd (sweepEach polls rs (snd (sweepOne polls r w))))"
  by (simp split: prod.splits)

lemma sweepEach_length: "length (fst (sweepEach polls rs w)) = length rs"
  by (induction rs arbitrary: w) (simp_all add: sweepEach_Cons del: sweepEach.simps(2))

lemma sweepEach_append:
  "sweepEach polls (xs @ ys) w =
     (fst (sweepEach polls xs w) @ fst (sweepEach polls ys (snd (sweepEach polls xs w))),
      snd (sweepEach polls ys (snd (sweepEach polls xs w))))"
  by (induction xs arbitrary: w) (simp_all add: sweepEach_Cons del: sweepEach.simps(2))

lemma sweepEach_single: "sweepEach polls [r] w = ([fst (sweepOne polls r w)], snd (sweepOne polls r w))"
  by (simp add: sweepEach_Cons del: sweepEach.simps(2))

lemma sweepEach_nth:
  assumes "k < length rs"
  shows "fst (sweepEach polls rs w) ! k
           = fst (sweepOne polls (rs ! k) (snd (sweepEach polls (take k rs) w)))"
proof -
  from assms have rs: "rs = take k rs @ [rs ! k] @ drop (Suc k) rs"
    by (simp add: Cons_nth_drop_Suc)
  have len: "length (fst (sweepEach polls (take k rs) w)) = k"
    using assms by (simp add: sweepEach_length)
  have "fst (sweepEach polls rs w) ! k
          = fst (sweepEach polls (take k rs @ [rs ! k] @ drop (Suc k) rs) w) ! k"
    using rs by simp
  also have "\<dots> = fst (sweepOne polls (rs ! k) (snd (sweepEach polls (take k rs) w)))"
    unfolding sweepEach_append [of polls "take k rs"] sweepEach_append [of polls "[rs ! k]"]
      sweepEach_single
    by (simp add: nth_append len)
  finally show ?thesis .
qed

lemma set_Wait: "set (Wait results) = {err. Return (Some err) \<in> set results}"
  by (induction results rule: Wait.induct) auto

lemma Wait_Nil: "Panic \<notin> set results \<Longrightarrow> Wait results = [] \<longleftrightarrow> (\<forall>r \<in> set results. r = Return None)"
  by (induction results rule: Wait.induct) auto

lemma DeleteResource_no_panic:
  "hasDelete resource' \<Longrightarrow> fst (DeleteResource resource' d meta w) \<noteq> Panic"
  by (auto simp: hasDelete_def DeleteResource_def split: option.splits prod.splits)

lemma sweepRetryFunc_no_panic:
  "hasDelete (sr_resource sr) \<Longrightarrow> fst (sweepRetryFunc sr w) \<noteq> Panic"
  using DeleteResource_no_panic [of "sr_resource sr" "sr_d sr" "sr_meta sr" w]
  by (auto simp: sweepRetryFunc_def split: prod.splits exec.splits option.splits)

lemma pollOnce_no_panic:
  "fst (f w) \<noteq> Panic \<Longrightarrow> fst (pollOnce f w) \<noteq> Panic"
  by (auto simp: pollOnce_def split: prod.splits exec.splits option.splits)

lemma RetryDriver_no_panic:
  "(\<And>w. fst (f w) \<noteq> Panic) \<Longrightarrow> fst (RetryDriver polls f w) \<noteq> Panic"
proof (induction polls arbitrary: w)
  case 0
  then show ?case by simp
next
  case (Suc polls)
  from Suc.prems have p: "fst (pollOnce f w) \<noteq> Panic" by (rule pollOnce_no_panic)
  obtain st w' where pw: "pollOnce f w = (st, w')" by (cases "pollOnce f w")
  with p have st: "st \<noteq> Panic" by simp
  show ?case
  proof (cases "st = Return StatePending")
    case True
    then show ?thesis using pw Suc.IH [OF Suc.prems] by simp
  next
    case False
    with st pw show ?thesis by (auto split: exec.splits RetryState.splits)
  qed
qed

lemma sweepOne_no_panic:
  assumes "hasDelete (sr_resource sr)"
  shows "fst (sweepOne polls sr w) \<noteq> Panic"
proof -
  have "fst (RetryDriver polls (sweepRetryFunc sr) w) \<noteq> Panic"
    by (rule RetryDriver_no_panic) (rule sweepRetryFunc_no_panic [OF assms])
  then obtain st w' where d: "RetryDriver polls (sweepRetryFunc sr) w = (Return st, w')"
    by (cases "RetryDriver polls (sweepRetryFunc sr) w"; cases "fst (RetryDriver polls (sweepRetryFunc sr) w)")
       auto
  show ?thesis
    using DeleteResource_no_panic [OF assms, of "sr_d sr" "sr_meta sr" w']
    by (simp add: sweepOne_def RetryConfigContext_def d)
qed

lemma sweepEach_no_panic:
  "(\<forall>r \<in> set rs. hasDelete (sr_resource r)) \<Longrightarrow> Panic \<notin> set (fst (sweepEach polls rs w))"
proof (induction rs arbitrary: w)
  case Nil
  then show ?case by simp
next
  case (Cons r rs)
  from Cons.prems have "fst (sweepOne polls r w) \<noteq> Panic"
    by (simp add: sweepOne_no_panic)
  moreover from Cons.prems have "Panic \<notin> set (fst (sweepEach polls rs (snd (sweepOne polls r w))))"
    by (intro Cons.IH) simp
  ultimately show ?case
    unfolding sweepEach_Cons by auto
qed

text \<open>
  C6, as the code has it, for sweep resources that have a delete function.
  \<open>SweepOrchestratorContext\<close> attempts every item, whatever the other items' results:
  there is one result per sweep resource, and the result of the item at position \<open>k\<close> is
  that of its own retried delete, run on the world the items before it left. It returns
  the aggregate of the items' errors: exactly the errors that are some item's terminal
  error, and nil exactly when every item ended without an error.
\<close>

theorem SweepOrchestratorContext_all_items:
  assumes "\<forall>r \<in> set sweepResources. hasDelete (sr_resource r)"
  shows "length (fst (sweepEach polls sweepResources w)) = length sweepResources
   \<and> (k < length sweepResources \<longrightarrow>
        fst (sweepEach polls sweepResources w) ! k
          = fst (sweepOne polls (sweepResources ! k)
                   (snd (sweepEach polls (take k sweepResources) w))))
   \<and> fst (SweepOrchestratorContext polls sweepResources w)
        = Return (ErrorOrNil (Wait (fst (sweepEach polls sweepResources w))))
   \<and> set (Wait (fst (sweepEach polls sweepResources w)))
        = {err. Return (Some err) \<in> set (fst (sweepEach polls sweepResources w))}
   \<and> (fst (SweepOrchestratorContext polls sweepResources w) = Return None
        \<longleftrightarrow> (\<forall>r \<in> set (fst (sweepEach polls sweepResources w)). r = Return None))"
proof (intro conjI impI)
  show "length (fst (sweepEach polls sweepResources w)) = length sweepResources"
    by (rule sweepEach_length)
next
  assume "k < length sweepResources"
  then show "fst (sweepEach polls sweepResources w) ! k
          = fst (sweepOne polls (sweepResources ! k)
                   (snd (sweepEach polls (take k sweepResources) w)))"
    by (rule sweepEach_nth)
next
  from assms have np: "Panic \<notin> set (fst (sweepEach polls sweepResources w))"
    by (rule sweepEach_no_panic)
  then show a: "fst (SweepOrchestratorContext polls sweepResources w)
          = Return (ErrorOrNil (Wait (fst (sweepEach polls sweepResources w))))"
    by (simp add: SweepOrchestratorContext_def case_prod_beta)
  show "set (Wait (fst (sweepEach polls sweepResources w)))
            = {err. Return (Some err) \<in> set (fst (sweepEach polls sweepResources w))}"
    by (rule set_Wait)
  show "fst (SweepOrchestratorContext polls sweepResources w) = Return None
             \<longleftrightarrow> (\<forall>r \<in> set (fst (sweepEach polls sweepResources w)). r = Return None)"
    unfolding a using Wait_Nil [OF np] by (simp add: ErrorOrNil_def)
qed

lemma sweepOne_first_attempt:
  assumes "0 < polls" and "fst (deleteOnce sr w) = Return err"
    and "\<not> throttled (Return err)" and "\<not> TimedOut err"
  shows "sweepOne polls sr w = (Return err, snd (deleteOnce sr w))"
proof -
  have "RetryConfigContext polls (sweepRetryFunc sr) w = (Return err, afterDeletes (Suc 0) sr w)"
    by (rule RetryConfigContext_first_not_throttled) (use assms in simp_all)
  then show ?thesis
    using assms(4) by (simp add: sweepOne_def)
qed

lemma sweepOne_logged_ok:
  "d \<noteq> ''throttled'' \<Longrightarrow> d \<noteq> ''busy'' \<Longrightarrow> d \<noteq> ''denied'' \<Longrightarrow>
     sweepOne 3 (loggedResource exampleAnswers d) w = (Return None, w @ [d])"
  using sweepOne_first_attempt [of 3 "loggedResource exampleAnswers d" w None]
  by (simp add: deleteOnce_loggedResource exampleAnswers_def TimedOut_examples)

lemma sweepOne_logged_denied:
  "sweepOne 3 (loggedResource exampleAnswers ''denied'') w
     = (Return (Some accessDeniedError), w @ [''denied''])"
  using sweepOne_first_attempt [of 3 "loggedResource exampleAnswers ''denied''" w
          "Some accessDeniedError"]
  by (simp add: deleteOnce_loggedResource exampleAnswers_def TimedOut_examples
        Contains_accessDeniedError)

lemma sweepEach_three:
  "sweepEach 3 [loggedResource exampleAnswers ''first'', loggedResource exampleAnswers ''denied'',
                loggedResource exampleAnswers ''third''] []
   = ([Return None, Return (Some accessDeniedError), Return None],
      [''first'', ''denied'', ''third''])"
  by (simp add: sweepEach_Cons sweepOne_logged_ok sweepOne_logged_denied del: sweepEach.simps(2))

lemma hasDelete_loggedResource: "hasDelete (sr_resource (loggedResource answers d))"
  by (simp add: hasDelete_def loggedResource_def NewSweepResource_def)

text \<open>
  The theorem at three sweep resources of which only the second one fails, with an error
  that is not retried: the log of the world shows that the deletes of the first and of the
  third resource were called, and the aggregate holds the second one's error alone.
\<close>

theorem SweepOrchestratorContext_all_items_witness:
  "sweepEach 3 [loggedResource exampleAnswers ''first'', loggedResource exampleAnswers ''denied'',
                loggedResource exampleAnswers ''third''] []
     = ([Return None, Return (Some accessDeniedError), Return None],
        [''first'', ''denied'', ''third''])
   \<and> SweepOrchestratorContext 3
        [loggedResource exampleAnswers ''first'', loggedResource exampleAnswers ''denied'',
         loggedResource exampleAnswers ''third''] []
       = (Return (Some [accessDeniedError]), [''first'', ''denied'', ''third''])"
proof -
  let ?rs = "[loggedResource exampleAnswers ''first'', loggedResource exampleAnswers ''denied'',
              loggedResource exampleAnswers ''third'']"
  have h: "\<forall>r \<in> set ?rs. hasDelete (sr_resource r)"
    by (simp add: hasDelete_loggedResource)
  from SweepOrchestratorContext_all_items [OF h, of 3 "[]"]
  have "fst (SweepOrchestratorContext 3 ?rs [])
          = Return (ErrorOrNil (Wait (fst (sweepEach 3 ?rs []))))"
    by blast
  then have a: "fst (SweepOrchestratorContext 3 ?rs []) = Return (Some [accessDeniedError])"
    unfolding sweepEach_three by (simp add: ErrorOrNil_def)
  have b: "snd (SweepOrchestratorContext 3 ?rs []) = [''first'', ''denied'', ''third'']"
    unfolding SweepOrchestratorContext_def sweepEach_three by simp
  from a b have "SweepOrchestratorContext 3 ?rs []
       = (Return (Some [accessDeniedError]), [''first'', ''denied'', ''third''])"
    by (metis prod.collapse)
  with sweepEach_three show ?thesis by blast
qed

lemma sweepOne_no_delete_panics:
  "sweepOne (Suc polls)
     (NewSweepResource \<lparr>DeleteContext = None, DeleteWithoutTimeout = None, Delete = None\<rparr> d meta) w
   = (Panic, w)"
  by (simp add: sweepOne_def RetryConfigContext_def pollOnce_def sweepRetryFunc_def
        DeleteResource_def NewSweepResource_def)

text \<open>
  C6 as stated fails for a sweep resource whose \<open>schema.Resource\<close> has none of the three
  delete functions: \<open>DeleteResource\<close> calls the nil \<open>resource.Delete\<close>, and the panic ends
  the run; no aggregate is returned for the list.
\<close>

theorem SweepOrchestratorContext_no_delete_function_panics:
  "fst (SweepOrchestratorContext 3
          [loggedResource exampleAnswers ''first'',
           NewSweepResource \<lparr>DeleteContext = None, DeleteWithoutTimeout = None, Delete = None\<rparr>
             ''second'' (),
           loggedResource exampleAnswers ''third''] [])
   = Panic"
proof -
  have three: "(3::nat) = Suc 2" by simp
  show ?thesis
    unfolding SweepOrchestratorContext_def sweepEach_Cons sweepEach.simps(1)
    by (simp add: sweepOne_logged_ok sweepOne_no_delete_panics [of 2, folded three])
qed

lemma SharedRegionalSweepClient_hit:
  "lookupClient cache region = Some client \<Longrightarrow>
     SharedRegionalSweepClient env cache region = (Return (Some client, None), cache)"
  by (simp add: SharedRegionalSweepClient_def)

lemma SharedRegionalSweepClient_miss:
  assumes "lookupClient cache region = None"
    and "SharedRegionalSweepClient env cache region = (Return (Some client, None), cache1)"
  shows "newSweepClient env region = Inr client
         \<and> (\<exists>m. cache = Some m \<and> cache1 = Some (m(region \<mapsto> client)))"
  using assms
  by (auto simp: SharedRegionalSweepClient_def storeClient_def split: sum.splits option.splits)


lemma SharedRegionalSweepClient_keeps:
  assumes "lookupClient cache region = Some client"
  shows "lookupClient (snd (SharedRegionalSweepClient env cache region')) region = Some client"
proof (cases "lookupClient cache region'")
  case (Some c)
  then show ?thesis using assms by (simp add: SharedRegionalSweepClient_def)
next
  case None
  with assms have ne: "region' \<noteq> region" by auto
  from assms obtain m where m: "cache = Some m" "m region = Some client"
    by (auto simp: lookupClient_def split: option.splits)
  show ?thesis
    using None ne m
    by (simp add: SharedRegionalSweepClient_def storeClient_def lookupClient_def
        split: sum.splits)
qed

lemma sweepClientCalls_keep:
  "lookupClient cache region = Some client \<Longrightarrow>
     lookupClient (sweepClientCalls later cache) region = Some client"
proof (induction later arbitrary: cache)
  case Nil
  then show ?case by simp
next
  case (Cons call later)
  obtain env region' where call: "call = (env, region')" by (cases call)
  from Cons.prems have "lookupClient (snd (SharedRegionalSweepClient env cache region')) region
      = Some client"
    by (rule SharedRegionalSweepClient_keeps)
  then show ?case
    unfolding call by (simp add: Cons.IH)
qed

lemma stepCall_hit:
  "lookupClient cache region = Some client \<Longrightarrow>
     stepCall env 0 \<lparr>clients = cache, constructed = n, calls = [AtLookup region]\<rparr>
       = \<lparr>clients = cache, constructed = n, calls = [Returned (Return (Some client, None))]\<rparr>"
  by (simp add: stepCall_def)

lemma runSchedule_hit:
  "lookupClient cache region = Some client \<Longrightarrow>
     runSchedule env [0, 0] \<lparr>clients = cache, constructed = n, calls = [AtLookup region]\<rparr>
       = \<lparr>clients = cache, constructed = n, calls = [Returned (Return (Some client, None))]\<rparr>"
  by (simp add: stepCall_hit) (simp add: stepCall_def)

text \<open>
  A call that runs alone in the system of overlapping calls does what the function does.
\<close>

lemma runSchedule_alone:
  "runSchedule env [0, 0] \<lparr>clients = cache, constructed = n, calls = [AtLookup region]\<rparr>
   = \<lparr>clients = snd (SharedRegionalSweepClient env cache region),
      constructed = (case lookupClient cache region of
                       Some client \<Rightarrow> n
                     | None \<Rightarrow> (case newSweepClient env region of Inl err \<Rightarrow> n | Inr client \<Rightarrow> Suc n)),
      calls = [Returned (fst (SharedRegionalSweepClient env cache region))]\<rparr>"
  by (simp add: stepCall_def SharedRegionalSweepClient_def split: option.splits sum.splits prod.splits)

text \<open>
  C9, as the code has it, for calls made one after the other. When a call for a region that
  is not yet in the cache returns a client without error, that client is the one the call
  constructed, and it is stored in the cache under the region. After any further calls,
  for any regions and under any environments, a call for the same region returns the
  stored client and leaves the cache as it is, whatever its environment is (the client's
  constructor is not consulted); run as a call of the system, it leaves the count of
  clients constructed unchanged.
\<close>

theorem SharedRegionalSweepClient_cached:
  assumes "lookupClient cache region = None"
    and "SharedRegionalSweepClient env cache region = (Return (Some client, None), cache1)"
  shows "newSweepClient env region = Inr client
       \<and> lookupClient cache1 region = Some client
       \<and> SharedRegionalSweepClient env' (sweepClientCalls later cache1) region
           = (Return (Some client, None), sweepClientCalls later cache1)
       \<and> runSchedule env' [0, 0]
           \<lparr>clients = sweepClientCalls later cache1, constructed = n, calls = [AtLookup region]\<rparr>
           = \<lparr>clients = sweepClientCalls later cache1, constructed = n,
              calls = [Returned (Return (Some client, None))]\<rparr>"
proof -
  from SharedRegionalSweepClient_miss [OF assms] obtain m where
    new: "newSweepClient env region = Inr client" and c1: "cache1 = Some (m(region \<mapsto> client))"
    by blast
  from c1 have stored: "lookupClient cache1 region = Some client"
    by (simp add: lookupClient_def)
  then have kept: "lookupClient (sweepClientCalls later cache1) region = Some client"
    by (rule sweepClientCalls_keep)
  from new stored SharedRegionalSweepClient_hit [OF kept] runSchedule_hit [OF kept]
  show ?thesis by blast
qed

lemma newSweepClient_example: "newSweepClient exampleEnvironment region = Inr region"
  by (simp add: newSweepClient_def assumeRole_def exampleEnvironment_def)

lemma SharedRegionalSweepClient_example:
  "SharedRegionalSweepClient exampleEnvironment (Some Map.empty) ''us-west-2''
     = (Return (Some ''us-west-2'', None), Some [''us-west-2'' \<mapsto> ''us-west-2''])"
  by (simp add: SharedRegionalSweepClient_def lookupClient_def storeClient_def
        newSweepClient_example)

text \<open>
  The theorem at the example environment and the region \<open>us-west-2\<close>: after a call for
  another region, a call under an environment whose constructor fails still returns the
  client stored by the first call.
\<close>

theorem SharedRegionalSweepClient_cached_witness:
  "SharedRegionalSweepClient exampleEnvironment (Some Map.empty) ''us-west-2''
     = (Return (Some ''us-west-2'', None), Some [''us-west-2'' \<mapsto> ''us-west-2''])
   \<and> SharedRegionalSweepClient
        (exampleEnvironment\<lparr>Client := \<lambda>conf. (''other'', Some (Errorf ''no network''))\<rparr>)
        (sweepClientCalls [(exampleEnvironment, ''eu-west-1'')]
           (Some [''us-west-2'' \<mapsto> ''us-west-2'']))
        ''us-west-2''
       = (Return (Some ''us-west-2'', None),
          sweepClientCalls [(exampleEnvironment, ''eu-west-1'')]
            (Some [''us-west-2'' \<mapsto> ''us-west-2'']))"
proof -
  have miss: "lookupClient (Some Map.empty) ''us-west-2'' = (None :: string option)"
    by (simp add: lookupClient_def)
  from SharedRegionalSweepClient_cached [OF miss SharedRegionalSweepClient_example,
           of "exampleEnvironment\<lparr>Client := \<lambda>conf. (''other'', Some (Errorf ''no network''))\<rparr>"
              "[(exampleEnvironment, ''eu-west-1'')]" 0]
       SharedRegionalSweepClient_example
  show ?thesis by blast
qed

text \<open>
  C9 as stated fails for calls that overlap: the function takes no lock. When two calls for
  the same region both look the cache up before either of them stores, both miss, both
  construct a client and both store one: two constructions for one region.
\<close>

theorem SharedRegionalSweepClient_overlapping_calls_construct_twice:
  "constructed
     (runSchedule exampleEnvironment [0, 1, 0, 1]
        \<lparr>clients = Some Map.empty, constructed = 0,
         calls = [AtLookup ''us-west-2'', AtLookup ''us-west-2'']\<rparr>) = 2
   \<and> calls
     (runSchedule exampleEnvironment [0, 1, 0, 1]
        \<lparr>clients = Some Map.empty, constructed = 0,
         calls = [AtLookup ''us-west-2'', AtLookup ''us-west-2'']\<rparr>)
     = [Returned (Return (Some ''us-west-2'', None)), Returned (Return (Some ''us-west-2'', None))]"
  by (simp add: stepCall_def lookupClient_def storeClient_def newSweepClient_example)

end
